theory Spec2Isabelle
  imports Main
begin

unbundle bit_operations_syntax

section \<open>C strings and the signal policy\<close>

text \<open>
  A C string is modelled by the list of its bytes before the terminating NUL, so a
  well-formed string holds no NUL byte itself.
\<close>

definition cstring :: "string \<Rightarrow> bool" where
  "cstring s = (CHR 0x00 \<notin> set s)"

text \<open>
  \<open>strcmp\<close> of the C library: the strings are compared byte by byte as unsigned
  chars, and the end of a string reads as the byte 0. The standard fixes only the sign
  of the result; the difference of the first two bytes that differ is one such value.
\<close>

fun strcmp :: "string \<Rightarrow> string \<Rightarrow> int" where
  "strcmp [] [] = 0"
| "strcmp [] (b # bs) = - int (of_char b)"
| "strcmp (a # as) [] = int (of_char a)"
| "strcmp (a # as) (b # bs) =
     (if a = b then strcmp as bs else int (of_char a) - int (of_char b))"

text \<open>
  \<open>should_protect_sigint\<close> (sigshell.c, lines 41-50). The local array
  \<open>protected\<close> ends with a NULL entry, written \<open>None\<close>; the \<open>for\<close> loop walks it
  from index 0 until it reads that entry. \<open>protected_scan\<close> is the loop on the rest of the
  array still to be read.
\<close>

definition protected :: "string option list" where
  "protected = [Some ''sleep'', Some ''critical'', None]"

fun protected_scan :: "string \<Rightarrow> string option list \<Rightarrow> int" where
  "protected_scan cmd [] = 0"
| "protected_scan cmd (None # rest) = 0"
| "protected_scan cmd (Some p # rest) =
     (if strcmp cmd p = 0 then 1 else protected_scan cmd rest)"

definition should_protect_sigint :: "string \<Rightarrow> int" where
  "should_protect_sigint cmd = protected_scan cmd protected"

section \<open>Signals, processes and the trace of a run\<close>

text \<open>
  The signals the program names, and any other signal by its number. A disposition is
  the default action, "ignore", or the shell's own handler \<open>sigint_handler\<close>
  (sigshell.c, lines 20-24), the only handler function of the program.
\<close>

datatype signal = SIGINT | SIGQUIT | SIGTSTP | SIGTTIN | SIGTTOU | SIGOTHER nat

datatype disposition = SIG_DFL | SIG_IGN | Handler_sigint

datatype wait_flag = WNOHANG | WUNTRACED | WCONTINUED

text \<open>
  What a process does that can be seen from outside: the system calls that change
  something (queries such as \<open>isatty\<close>, \<open>getpid\<close>, \<open>getpgrp\<close> and \<open>tcgetpgrp\<close> are not
  recorded), and its output. \<open>Printf fmt xs\<close> is a \<open>printf\<close> of the format \<open>fmt\<close>
  (written without its newline characters) with the integer arguments \<open>xs\<close>;
  \<open>Perror msg e\<close> is \<open>perror(msg)\<close> while \<open>errno\<close> is \<open>e\<close>. \<open>Call_execute_command\<close>
  records an entry into \<open>execute_command\<close> with the arguments it receives.
\<close>

datatype event =
    Call_execute_command "string list" int
  | Sys_fork
  | Sys_setpgid int int
  | Sys_sigaction signal disposition
  | Sys_signal signal disposition
  | Sys_execvp "string list"
  | Sys_exit int
  | Sys_tcsetpgrp int
  | Sys_waitpid int "wait_flag list"
  | Sys_kill int signal
  | Sys_tcgetattr
  | Sys_chdir string
  | Printf string "int list"
  | Fprintf_stderr string
  | Perror string nat

text \<open>
  What the process is running: the shell's own code, the program an \<open>execvp\<close> has put in
  its place (with its argument vector), or nothing any more after \<open>exit\<close>.
\<close>

datatype image = Shell | Program "string list" | Terminated int

text \<open>
  The state of the process that runs the code, with the one piece of kernel state the
  code acts on, the foreground process group of the terminal. \<open>shell_pgid\<close> is the
  global variable of that name. A forked child starts with a copy of this state.
\<close>

record proc =
  shell_pgid :: int
  self_pid :: int
  pgid :: int
  in_child :: bool
  sigdisp :: "signal \<Rightarrow> disposition"
  stdin_tty :: bool
  tty_fg :: int
  running :: image
  trace :: "event list"

text \<open>
  The answers of the operating system during one command: what \<open>fork\<close> returns (and
  \<open>errno\<close> when it fails), the process id of the child, whether \<open>execvp\<close> fails (and with
  which \<open>errno\<close>: it returns only then), whether the two \<open>tcsetpgrp\<close> calls are carried
  out (the code does not look at their result), what \<open>waitpid\<close> returns and stores in
  \<open>status\<close>, and what \<open>chdir\<close> returns.
\<close>

record os_reply =
  fork_ret :: int
  fork_errno :: nat
  child_pid :: int
  execvp_errno :: "nat option"
  grant_ok :: bool
  reclaim_ok :: bool
  wait_ret :: int
  wait_status :: int
  wait_errno :: nat
  chdir_ret :: int
  chdir_errno :: nat

text \<open>
  The format strings and messages of the program, without their newline characters.
\<close>

definition msg_suspended :: string where
  "msg_suspended = ''[Shell] Process %d suspended.''"

definition msg_resume_hint :: string where
  "msg_resume_hint = ''[Shell] Use 'kill -CONT %d' to resume it (or a job control command in a real shell).''"

definition msg_exit_status :: string where
  "msg_exit_status = ''[Shell] Process exited with status %d''"

definition msg_term_signal :: string where
  "msg_term_signal = ''[Shell] Process terminated by signal %d''"

definition msg_child_protected :: string where
  "msg_child_protected = ''[Child] This process will ignore Ctrl+C (PID: %d)''"

definition msg_shell_protected :: string where
  "msg_shell_protected = ''[Shell] Process %d is protected from SIGINT (Ctrl+C won't work)''"

definition msg_prompt :: string where
  "msg_prompt = ''sigshell> ''"

definition msg_use_exit :: string where
  "msg_use_exit = ''[Shell] Use 'exit' command to quit the shell.''"

definition msg_goodbye :: string where
  "msg_goodbye = ''Goodbye!''"

definition msg_banner :: string where
  "msg_banner = ''=== Custom Signal Handling Shell ===''"

definition msg_type_help :: string where
  "msg_type_help = ''Type 'help' for usage information.''"

definition msg_type_exit :: string where
  "msg_type_exit = ''Type 'exit' to quit.''"

definition msg_fork_failed :: string where
  "msg_fork_failed = ''fork failed''"

definition msg_exec_failed :: string where
  "msg_exec_failed = ''Command execution failed''"

definition msg_wait_failed :: string where
  "msg_wait_failed = ''waitpid failed''"

definition msg_cd_failed :: string where
  "msg_cd_failed = ''cd failed''"

definition msg_cd_missing :: string where
  "msg_cd_missing = ''cd: missing argument''"

definition emit :: "event \<Rightarrow> proc \<Rightarrow> proc" where
  "emit e st = st\<lparr>trace := trace st @ [e]\<rparr>"

definition sigaction :: "signal \<Rightarrow> disposition \<Rightarrow> proc \<Rightarrow> proc" where
  "sigaction sig d st = emit (Sys_sigaction sig d) (st\<lparr>sigdisp := (sigdisp st)(sig := d)\<rparr>)"

definition signal_call :: "signal \<Rightarrow> disposition \<Rightarrow> proc \<Rightarrow> proc" where
  "signal_call sig d st = emit (Sys_signal sig d) (st\<lparr>sigdisp := (sigdisp st)(sig := d)\<rparr>)"

text \<open>
  \<open>setpgid(p, g)\<close>: a process may move itself (\<open>p\<close> is 0 or its own id; \<open>g = 0\<close> stands
  for the id of the process moved). For any other \<open>p\<close> the call is about another process
  and leaves the caller's group as it is.
\<close>

definition setpgid :: "int \<Rightarrow> int \<Rightarrow> proc \<Rightarrow> proc" where
  "setpgid p g st =
     emit (Sys_setpgid p g)
       (if p = 0 \<or> p = self_pid st
        then st\<lparr>pgid := (if g = 0 then self_pid st else g)\<rparr> else st)"

text \<open>
  \<open>tcsetpgrp(STDIN_FILENO, pgrp)\<close>. The kernel refuses the call when \<open>pgrp\<close> is not a
  process group of the session (a child that has not yet run its \<open>setpgid\<close>, say); the
  flag \<open>ok\<close> says whether it is carried out. The code ignores the return value.
\<close>

definition tcsetpgrp :: "bool \<Rightarrow> int \<Rightarrow> proc \<Rightarrow> proc" where
  "tcsetpgrp ok pgrp st = emit (Sys_tcsetpgrp pgrp) (if ok then st\<lparr>tty_fg := pgrp\<rparr> else st)"

section \<open>The wait status\<close>

text \<open>
  The macros of \<open>sys/wait.h\<close> are not part of the repository; these are the ones of the C
  library the program is built with (glibc, \<open>bits/waitstatus.h\<close>), on the \<open>int\<close> that
  \<open>waitpid\<close> stores: \<open>WTERMSIG\<close> is \<open>status & 0x7f\<close>, \<open>WEXITSTATUS\<close> is
  \<open>(status & 0xff00) >> 8\<close>, \<open>WIFEXITED\<close> is \<open>WTERMSIG(status) == 0\<close>, \<open>WIFSIGNALED\<close> is
  \<open>((signed char) ((status & 0x7f) + 1) >> 1) > 0\<close> and \<open>WIFSTOPPED\<close> is
  \<open>(status & 0xff) == 0x7f\<close>. None of these operations can overflow an \<open>int\<close>, so the
  status is an integer with the bit operations of two's complement; the cast to
  \<open>signed char\<close> keeps the low eight bits as a signed value, and \<open>>>\<close> is the shift
  that keeps the sign.
\<close>

definition WTERMSIG :: "int \<Rightarrow> int" where
  "WTERMSIG status = status AND 0x7f"

definition WEXITSTATUS :: "int \<Rightarrow> int" where
  "WEXITSTATUS status = drop_bit 8 (status AND 0xff00)"

definition WIFEXITED :: "int \<Rightarrow> bool" where
  "WIFEXITED status = (WTERMSIG status = 0)"

definition WIFSIGNALED :: "int \<Rightarrow> bool" where
  "WIFSIGNALED status = (0 < drop_bit 1 (signed_take_bit 7 ((status AND 0x7f) + 1)))"

definition WIFSTOPPED :: "int \<Rightarrow> bool" where
  "WIFSTOPPED status = (status AND 0xff = 0x7f)"

text \<open>
  The other direction, what the kernel stores for a change of state of the child
  (\<open>W_EXITCODE(ret, sig)\<close> is \<open>ret << 8 | sig\<close>, \<open>W_STOPCODE(sig)\<close> is
  \<open>sig << 8 | 0x7f\<close>, and the flag \<open>0x80\<close> marks a core dump): an exit with a code, of
  which the low eight bits are kept, a death by a signal, with or without a core dump,
  and a stop by a signal.
\<close>

definition W_EXITCODE :: "int \<Rightarrow> int \<Rightarrow> int" where
  "W_EXITCODE ret sig = push_bit 8 ret OR sig"

definition W_STOPCODE :: "int \<Rightarrow> int" where
  "W_STOPCODE sig = push_bit 8 sig OR 0x7f"

datatype child_change = Exits int | Killed int bool | Stops int

fun status_of :: "child_change \<Rightarrow> int" where
  "status_of (Exits n) = W_EXITCODE (n AND 0xff) 0"
| "status_of (Killed s core) = W_EXITCODE 0 s OR (if core then 0x80 else 0)"
| "status_of (Stops s) = W_STOPCODE s"

section \<open>Running a command: \<open>execute_command\<close>\<close>

text \<open>
  The outcome of the wait, one constructor for each branch of the chain of tests on
  \<open>result\<close> and \<open>status\<close> (sigshell.c, lines 119-134). The source has no such type: it
  prints in each branch. \<open>NoReport\<close> is the case in which no test of the chain holds.
  \<open>classify_wait\<close> is the chain of tests, in the order of the source, and \<open>report_wait\<close>
  is what each branch prints.
\<close>

datatype wait_outcome =
    Exited int
  | StoppedBySignal
  | TerminatedBySignal int
  | WaitFailed nat
  | NoReport

definition classify_wait :: "int \<Rightarrow> int \<Rightarrow> nat \<Rightarrow> wait_outcome" where
  "classify_wait result status errno =
     (if result > 0 then
        (if WIFSTOPPED status then StoppedBySignal
         else if WIFEXITED status then Exited (WEXITSTATUS status)
         else if WIFSIGNALED status then TerminatedBySignal (WTERMSIG status)
         else NoReport)
      else if result = - 1 then WaitFailed errno
      else NoReport)"

fun report_wait :: "int \<Rightarrow> wait_outcome \<Rightarrow> proc \<Rightarrow> proc" where
  "report_wait pid StoppedBySignal st =
     emit (Printf msg_resume_hint [pid])
       (emit (Printf msg_suspended [pid]) st)"
| "report_wait pid (Exited exit_status) st =
     (if exit_status \<noteq> 0
      then emit (Printf msg_exit_status [exit_status]) st
      else st)"
| "report_wait pid (TerminatedBySignal s) st =
     emit (Printf msg_term_signal [s]) st"
| "report_wait pid (WaitFailed e) st = emit (Perror msg_wait_failed e) st"
| "report_wait pid NoReport st = st"

text \<open>
  The two steps around the wait (sigshell.c, lines 111-114 and 136-139): the terminal is
  given to the child's group, and taken back for the shell's, when standard input is a
  terminal.
\<close>

definition grant_foreground :: "bool \<Rightarrow> int \<Rightarrow> proc \<Rightarrow> proc" where
  "grant_foreground ok child_pgid st =
     (if stdin_tty st then tcsetpgrp ok child_pgid st else st)"

definition reclaim_foreground :: "bool \<Rightarrow> proc \<Rightarrow> proc" where
  "reclaim_foreground ok st =
     (if stdin_tty st then tcsetpgrp ok (shell_pgid st) st else st)"

text \<open>
  After a successful \<open>execvp\<close> the new program keeps the ignored signals ignored and has
  every caught signal back at its default action.
\<close>

definition exec_disposition :: "disposition \<Rightarrow> disposition" where
  "exec_disposition d = (if d = SIG_IGN then SIG_IGN else SIG_DFL)"

text \<open>
  The child's side of \<open>execute_command\<close> (sigshell.c, lines 70-101), run in the copy of
  the shell that \<open>fork\<close> has made: own process group, the two dispositions, then
  \<open>execvp\<close>, and \<open>exit(1)\<close> when that returns.
\<close>

definition child_branch :: "string list \<Rightarrow> int \<Rightarrow> os_reply \<Rightarrow> proc \<Rightarrow> proc" where
  "child_branch args protect_sigint env st =
     (let st1 = setpgid 0 0 (st\<lparr>self_pid := child_pid env, in_child := True\<rparr>);
          st2 = sigaction SIGTSTP SIG_DFL st1;
          st3 = (if protect_sigint \<noteq> 0
                 then emit (Printf msg_child_protected [self_pid st2])
                        (sigaction SIGINT SIG_IGN st2)
                 else sigaction SIGINT SIG_DFL st2);
          st4 = emit (Sys_execvp args) st3
      in case execvp_errno env of
           None \<Rightarrow> st4\<lparr>running := Program args, sigdisp := exec_disposition \<circ> sigdisp st4\<rparr>
         | Some e \<Rightarrow>
             (emit (Sys_exit 1) (emit (Perror msg_exec_failed e) st4))
               \<lparr>running := Terminated 1\<rparr>)"

text \<open>The shell's side (sigshell.c, lines 102-140).\<close>

definition parent_branch :: "int \<Rightarrow> int \<Rightarrow> os_reply \<Rightarrow> proc \<Rightarrow> proc" where
  "parent_branch pid protect_sigint env st =
     (let st1 = (if protect_sigint \<noteq> 0
                 then emit (Printf msg_shell_protected [pid]) st
                 else st);
          st2 = grant_foreground (grant_ok env) pid st1;
          st3 = emit (Sys_waitpid pid [WUNTRACED]) st2;
          st4 = report_wait pid (classify_wait (wait_ret env) (wait_status env) (wait_errno env)) st3
      in reclaim_foreground (reclaim_ok env) st4)"

text \<open>
  \<open>execute_command\<close> (sigshell.c, lines 53-141). \<open>fork\<close> returns in two processes; the
  value it returns, \<open>fork_ret\<close>, says which of them this run of the function follows.
  The test of \<open>isatty\<close> at the head of the function guards an empty block and has no
  counterpart here.
\<close>

definition execute_command :: "string list \<Rightarrow> int \<Rightarrow> os_reply \<Rightarrow> proc \<Rightarrow> proc" where
  "execute_command args protect_sigint env st =
     (let st1 = emit Sys_fork (emit (Call_execute_command args protect_sigint) st);
          pid = fork_ret env
      in if pid < 0 then emit (Perror msg_fork_failed (fork_errno env)) st1
         else if pid = 0 then child_branch args protect_sigint env st1
         else parent_branch pid protect_sigint env st1)"

section \<open>The prompt loop\<close>

definition MAX_ARGS :: nat where
  "MAX_ARGS = 64"

text \<open>
  \<open>strtok\<close> with the delimiters \<open>" \t\n"\<close>, on the part of the buffer not yet scanned (the
  library keeps a pointer to it between the calls): leading delimiters are skipped; at
  the end of the buffer the result is NULL, written \<open>None\<close>; otherwise the token runs to
  the next delimiter, which is overwritten, and the scan resumes behind it.
\<close>

definition is_delim :: "char \<Rightarrow> bool" where
  "is_delim c = (c = CHR '' '' \<or> c = CHR 0x09 \<or> c = CHR 0x0A)"

definition strtok :: "string \<Rightarrow> (string \<times> string) option" where
  "strtok s =
     (let s1 = dropWhile is_delim s
      in if s1 = [] then None
         else Some (takeWhile (\<lambda>c. \<not> is_delim c) s1,
                    drop 1 (dropWhile (\<lambda>c. \<not> is_delim c) s1)))"

text \<open>
  \<open>parse_command\<close> (sigshell.c, lines 27-38). \<open>parse_loop i token\<close> is the \<open>while\<close> loop
  with \<open>i\<close> arguments stored and \<open>token\<close> the last result of \<open>strtok\<close>, paired with the
  rest of the buffer. The result is the list of the entries of \<open>args\<close> before the NULL
  that the function stores behind them; the \<open>int\<close> it returns is the length of that list.
\<close>

function parse_loop :: "nat \<Rightarrow> (string \<times> string) option \<Rightarrow> string list" where
  "parse_loop i None = []"
| "parse_loop i (Some (token, rest)) =
     (if i < MAX_ARGS - 1 then token # parse_loop (Suc i) (strtok rest) else [])"
  by pat_completeness auto
termination
  by (relation "measure (\<lambda>(i, t). MAX_ARGS - 1 - i)") auto

definition parse_command :: "string \<Rightarrow> string list" where
  "parse_command cmd = parse_loop 0 (strtok cmd)"

definition help_text :: "string list" where
  "help_text =
     [msg_banner,
      ''Features:'',
      ''  - Ctrl+C in shell shows message instead of exiting'',
      ''  - 'sleep' commands ignore Ctrl+C (SIGINT protected)'',
      ''  - Ctrl+Z suspends process directly (proper job control set up)'',
      ''Built-in commands:'',
      ''  help     - Show this help message'',
      ''  exit     - Exit the shell'',
      ''  cd <dir> - Change directory'',
      ''Try these:'',
      ''  sleep 10     - Try pressing Ctrl+C (won't work!)'',
      ''  ls -la       - Try pressing Ctrl+C (will work)'',
      ''  cat          - Try pressing Ctrl+Z (will suspend)'',
      []]"

text \<open>
  \<open>handle_builtin\<close> (sigshell.c, lines 144-184), on the list of the entries of \<open>args\<close>
  before its NULL: \<open>args[0] == NULL\<close> is \<open>args = []\<close>, and \<open>args[1] == NULL\<close>, read only
  when \<open>args[0]\<close> is not NULL, is \<open>length args < 2\<close>.
\<close>

definition handle_builtin :: "string list \<Rightarrow> os_reply \<Rightarrow> proc \<Rightarrow> int \<times> proc" where
  "handle_builtin args env st =
     (if args = [] then (1, st)
      else if strcmp (args ! 0) ''exit'' = 0 then (2, emit (Printf msg_goodbye []) st)
      else if strcmp (args ! 0) ''help'' = 0
        then (1, fold (\<lambda>l. emit (Printf l [])) help_text st)
      else if strcmp (args ! 0) ''cd'' = 0 then
        (if length args < 2 then (1, emit (Fprintf_stderr msg_cd_missing) st)
         else let st1 = emit (Sys_chdir (args ! 1)) st
              in if chdir_ret env \<noteq> 0
                 then (1, emit (Perror msg_cd_failed (chdir_errno env)) st1)
                 else (1, st1))
      else (0, st))"

text \<open>
  \<open>init_shell\<close> (sigshell.c, lines 187-211). The loop at its head asks \<open>tcgetpgrp\<close> again
  and again; \<open>await_foreground\<close> takes the list of the answers it gets, and is \<open>None\<close> when
  none of them is the shell's own group: the loop does not end then. The \<open>setpgid\<close> call
  that follows names the shell's group as the process to move.
\<close>

fun await_foreground :: "int list \<Rightarrow> proc \<Rightarrow> proc option" where
  "await_foreground [] st = None"
| "await_foreground (fg # answers) st =
     (let st1 = st\<lparr>shell_pgid := pgid st, tty_fg := fg\<rparr>
      in if fg \<noteq> shell_pgid st1
         then await_foreground answers (emit (Sys_kill (- shell_pgid st1) SIGTTIN) st1)
         else Some st1)"

definition init_shell :: "int list \<Rightarrow> bool \<Rightarrow> proc \<Rightarrow> proc option" where
  "init_shell answers ok st =
     (if stdin_tty st then
        (case await_foreground answers st of
           None \<Rightarrow> None
         | Some st1 \<Rightarrow>
             (let st2 = signal_call SIGINT Handler_sigint st1;
                  st3 = signal_call SIGQUIT SIG_IGN st2;
                  st4 = signal_call SIGTSTP SIG_IGN st3;
                  st5 = signal_call SIGTTIN SIG_IGN st4;
                  st6 = signal_call SIGTTOU SIG_IGN st5;
                  st7 = setpgid (shell_pgid st6) (shell_pgid st6) st6;
                  st8 = tcsetpgrp ok (shell_pgid st7) st7
              in Some (emit Sys_tcgetattr st8)))
      else Some st)"

text \<open>
  One turn of the loop of \<open>main\<close> behind a successful \<open>fgets\<close> (sigshell.c, lines 243-269),
  on the bytes \<open>fgets\<close> has stored. The buffer is read as a C string from there on:
  \<open>strcspn(cmd, "\n")\<close> stops at the first newline or at the first NUL byte, whichever
  comes first, and the command is what stands before it. A child in which
  \<open>execute_command\<close> does not return leaves the loop: \<open>NoReturn\<close>.
\<close>

datatype control = Continue | Break | NoReturn

definition loop_body :: "string \<Rightarrow> os_reply \<Rightarrow> proc \<Rightarrow> control \<times> proc" where
  "loop_body line env st =
     (let cmd = takeWhile (\<lambda>c. c \<noteq> CHR 0x0A \<and> c \<noteq> CHR 0x00) line
      in if length cmd = 0 then (Continue, st)
         else
           (let args = parse_command cmd; argc = length args
            in if argc = 0 then (Continue, st)
               else
                 (case handle_builtin args env st of
                    (builtin_result, st1) \<Rightarrow>
                      if builtin_result = 2 then (Break, st1)
                      else if builtin_result = 1 then (Continue, st1)
                      else
                        (let protect = should_protect_sigint (args ! 0);
                             st2 = execute_command args protect env st1
                         in (if running st2 = Shell then Continue else NoReturn, st2)))))"

text \<open>
  \<open>sigint_handler\<close> (sigshell.c, lines 20-24): two \<open>printf\<close> calls.
\<close>

definition sigint_handler :: "proc \<Rightarrow> proc" where
  "sigint_handler st = emit (Printf msg_prompt []) (emit (Printf msg_use_exit []) st)"

text \<open>
  A read that \<open>fgets\<close> gives up, returning NULL with the input not at its end. While the
  disposition of \<open>SIGINT\<close> is the handler, that is a \<open>SIGINT\<close> the shell catches at its
  prompt: the handler runs, and since \<open>signal\<close> of the C library the program is built with
  (glibc under \<open>_POSIX_C_SOURCE\<close>) installs a handler for one delivery and without
  restarting the interrupted call, the disposition is the default action afterwards. With
  no handler installed the read has failed for a reason of its own, and nothing else
  happens.
\<close>

definition interrupted_read :: "proc \<Rightarrow> proc" where
  "interrupted_read st =
     (if sigdisp st SIGINT = Handler_sigint
      then (sigint_handler st)\<lparr>sigdisp := (sigdisp st)(SIGINT := SIG_DFL)\<rparr>
      else st)"

text \<open>
  The loop of \<open>main\<close> (sigshell.c, lines 228-270) on the results of its calls of \<open>fgets\<close>,
  each with the answers of the operating system during that turn: a line, or NULL
  without end of file (\<open>Interrupted\<close>). Behind the last of them the input is at its end.
\<close>

datatype read_result = Line string | Interrupted

fun main_loop :: "(read_result \<times> os_reply) list \<Rightarrow> proc \<Rightarrow> proc" where
  "main_loop [] st = emit (Printf [] []) (emit (Printf msg_prompt []) st)"
| "main_loop ((Interrupted, env) # rest) st =
     main_loop rest (interrupted_read (emit (Printf msg_prompt []) st))"
| "main_loop ((Line l, env) # rest) st =
     (case loop_body l env (emit (Printf msg_prompt []) st) of
        (Continue, st1) \<Rightarrow> main_loop rest st1
      | (Break, st1) \<Rightarrow> st1
      | (NoReturn, st1) \<Rightarrow> st1)"

text \<open>
  \<open>main\<close> (sigshell.c, lines 213-273): \<open>None\<close> when \<open>init_shell\<close> does not return.
\<close>

definition main :: "int list \<Rightarrow> bool \<Rightarrow> (read_result \<times> os_reply) list \<Rightarrow> proc \<Rightarrow> proc option" where
  "main answers ok inputs st =
     (case init_shell answers ok st of
        None \<Rightarrow> None
      | Some st1 \<Rightarrow>
          Some (main_loop inputs
            (emit (Printf msg_type_exit [])
              (emit (Printf msg_type_help [])
                (emit (Printf msg_banner []) st1)))))"

text \<open>
  A process as the operating system starts it: every disposition at its default, the
  global \<open>shell_pgid\<close> zero, nothing done yet.
\<close>

definition fresh_proc :: "bool \<Rightarrow> int \<Rightarrow> int \<Rightarrow> int \<Rightarrow> proc" where
  "fresh_proc tty pid pgrp fg =
     \<lparr>shell_pgid = 0, self_pid = pid, pgid = pgrp, in_child = False,
      sigdisp = (\<lambda>_. SIG_DFL), stdin_tty = tty, tty_fg = fg, running = Shell, trace = []\<rparr>"

section \<open>Reading a trace\<close>

text \<open>
  The events that a step from \<open>st\<close> to \<open>st'\<close> has added to the trace, and the kinds of
  event that the properties below count: calls of \<open>waitpid\<close>, entries into
  \<open>execute_command\<close>, and calls of \<open>signal\<close> or \<open>sigaction\<close> on a given signal.
\<close>

definition new_events :: "proc \<Rightarrow> proc \<Rightarrow> event list" where
  "new_events st st' = drop (length (trace st)) (trace st')"

fun is_waitpid :: "event \<Rightarrow> bool" where
  "is_waitpid (Sys_waitpid _ _) = True"
| "is_waitpid _ = False"

text \<open>What a run does behind its first call of \<open>waitpid\<close>.\<close>

definition after_wait :: "event list \<Rightarrow> event list" where
  "after_wait evs = drop 1 (dropWhile (\<lambda>e. \<not> is_waitpid e) evs)"

fun is_call :: "event \<Rightarrow> bool" where
  "is_call (Call_execute_command _ _) = True"
| "is_call _ = False"

fun changes_disposition :: "signal \<Rightarrow> event \<Rightarrow> bool" where
  "changes_disposition sig (Sys_signal s d) = (s = sig)"
| "changes_disposition sig (Sys_sigaction s d) = (s = sig)"
| "changes_disposition sig _ = False"

text \<open>
  Events that neither set a disposition nor enter \<open>execute_command\<close>: output, and the
  calls the shell's side makes. \<open>call_ok\<close> says of an entry into \<open>execute_command\<close> that
  it has an argument and the flag of its first argument.
\<close>

fun quiet :: "event \<Rightarrow> bool" where
  "quiet (Printf _ _) = True"
| "quiet (Perror _ _) = True"
| "quiet (Fprintf_stderr _) = True"
| "quiet (Sys_tcsetpgrp _) = True"
| "quiet (Sys_waitpid _ _) = True"
| "quiet Sys_fork = True"
| "quiet (Sys_chdir _) = True"
| "quiet _ = False"

fun call_ok :: "event \<Rightarrow> bool" where
  "call_ok (Call_execute_command args p) = (args \<noteq> [] \<and> p = should_protect_sigint (args ! 0))"
| "call_ok _ = True"

section \<open>Sample inputs\<close>

text \<open>
  A run in which \<open>fork\<close> gives the shell the child 4242, every call succeeds and the child
  exits with code 0; a shell that owns its terminal, with process group 100; and a line as
  \<open>fgets\<close> returns it.
\<close>

definition sample_reply :: os_reply where
  "sample_reply = \<lparr>fork_ret = 4242, fork_errno = 0, child_pid = 4242, execvp_errno = None,
     grant_ok = True, reclaim_ok = True, wait_ret = 4242, wait_status = 0, wait_errno = 0,
     chdir_ret = 0, chdir_errno = 0\<rparr>"

definition sample_shell :: proc where
  "sample_shell = (fresh_proc True 100 100 100)\<lparr>shell_pgid := 100\<rparr>"

definition sample_line :: string where
  "sample_line = ''ls -la'' @ [CHR 0x0A]"

section \<open>Properties of the signal policy\<close>

lemma of_char_zero_iff: "(of_char c :: nat) = 0 \<longleftrightarrow> c = CHR 0x00"
proof -
  have "(of_char (CHR 0x00) :: nat) = 0"
    by simp
  then show ?thesis
    by (metis of_char_eq_iff)
qed

lemma strcmp_refl: "strcmp s s = 0"
  by (induction s) simp_all

lemma strcmp_zero_imp_eq:
  "cstring a \<Longrightarrow> cstring b \<Longrightarrow> strcmp a b = 0 \<Longrightarrow> a = b"
proof (induction a b rule: strcmp.induct)
  case 1
  then show ?case by simp
next
  case (2 b bs)
  then show ?case by (simp add: cstring_def of_char_zero_iff)
next
  case (3 a as)
  then show ?case by (simp add: cstring_def of_char_zero_iff)
next
  case (4 a as b bs)
  show ?case
  proof (cases "a = b")
    case True
    with 4 show ?thesis by (simp add: cstring_def)
  next
    case False
    then have "(of_char a :: nat) \<noteq> of_char b"
      by simp
    with 4 False show ?thesis by simp
  qed
qed

lemma strcmp_zero_iff:
  "cstring a \<Longrightarrow> cstring b \<Longrightarrow> strcmp a b = 0 \<longleftrightarrow> a = b"
  using strcmp_zero_imp_eq strcmp_refl by blast

lemma cstring_sleep: "cstring ''sleep''"
  by (simp add: cstring_def)

lemma cstring_critical: "cstring ''critical''"
  by (simp add: cstring_def)

text \<open>
  Claim C5. For every command name (a well-formed C string), \<open>should_protect_sigint\<close>
  returns 1 when the name is exactly \<open>sleep\<close> or exactly \<open>critical\<close>, and 0 for every
  other name: the match is on the whole string, byte for byte, so it is case-sensitive
  and no prefix, substring or wildcard matches. The function is a total, pure function
  of its argument.
\<close>

theorem should_protect_sigint_exact:
  "cstring cmd \<Longrightarrow>
   should_protect_sigint cmd = (if cmd \<in> {''sleep'', ''critical''} then 1 else 0)"
  by (simp add: should_protect_sigint_def protected_def
      strcmp_zero_iff cstring_sleep cstring_critical)

theorem should_protect_sigint_exact_witness:
  "cstring ''sleep'' \<and> should_protect_sigint ''sleep'' = 1
   \<and> cstring ''Sleep'' \<and> should_protect_sigint ''Sleep'' = 0
   \<and> cstring ''sleeper'' \<and> should_protect_sigint ''sleeper'' = 0"
proof -
  have a: "cstring ''sleep''" and b: "cstring ''Sleep''" and c: "cstring ''sleeper''"
    by (simp_all add: cstring_def)
  show ?thesis
    using a b c should_protect_sigint_exact [OF a] should_protect_sigint_exact [OF b]
      should_protect_sigint_exact [OF c]
    by simp
qed

section \<open>Evaluating the sample inputs\<close>

lemmas run_defs = execute_command_def parent_branch_def child_branch_def grant_foreground_def
  reclaim_foreground_def tcsetpgrp_def setpgid_def sigaction_def signal_call_def emit_def
  classify_wait_def WIFSTOPPED_def WIFEXITED_def WIFSIGNALED_def WTERMSIG_def WEXITSTATUS_def
  W_EXITCODE_def W_STOPCODE_def fresh_proc_def Let_def

lemma parse_sample_line:
  "parse_command (takeWhile (\<lambda>c. c \<noteq> CHR 0x0A \<and> c \<noteq> CHR 0x00) sample_line) = [''ls'', ''-la'']"
  by (simp add: sample_line_def parse_command_def strtok_def is_delim_def MAX_ARGS_def)

lemma handle_builtin_sample:
  "fst (handle_builtin [''ls'', ''-la''] env st) = 0"
  by (simp add: handle_builtin_def)

section \<open>The wait status and its classification\<close>

lemma low7_mask: "(0x7f :: int) = mask 7" by (simp add: mask_eq_exp_minus_1)
lemma low8_mask: "(0xff :: int) = mask 8" by (simp add: mask_eq_exp_minus_1)
lemma byte1_mask: "(0xff00 :: int) = push_bit 8 (mask 8)" by (simp add: mask_eq_exp_minus_1)

lemma exit_code_bits: "WEXITSTATUS (status_of (Exits n)) = take_bit 8 n"
  unfolding WEXITSTATUS_def status_of.simps W_EXITCODE_def low8_mask byte1_mask
  by (rule bit_eqI) (auto simp: bit_simps)

lemma exit_status: "0 \<le> n \<Longrightarrow> n \<le> 255 \<Longrightarrow> WEXITSTATUS (status_of (Exits n)) = n"
  unfolding exit_code_bits by (simp add: take_bit_int_eq_self)

lemma exit_termsig: "WTERMSIG (status_of (Exits n)) = 0"
  unfolding WTERMSIG_def status_of.simps W_EXITCODE_def low7_mask low8_mask
  by (rule bit_eqI) (auto simp: bit_simps)

lemma termsig_take_bit: "WTERMSIG status = take_bit 7 status"
  by (simp add: WTERMSIG_def low7_mask take_bit_eq_mask)

lemma killed_termsig: "0 \<le> s \<Longrightarrow> s \<le> 127 \<Longrightarrow> WTERMSIG (status_of (Killed s core)) = s"
  unfolding termsig_take_bit
  by (simp add: W_EXITCODE_def take_bit_or take_bit_int_eq_self)

lemma termsig_range: "0 \<le> WTERMSIG status \<and> WTERMSIG status < 128"
  unfolding termsig_take_bit using take_bit_int_less_exp [of 7 status] by simp

lemma signaled_iff: "WIFSIGNALED status \<longleftrightarrow> 1 \<le> WTERMSIG status \<and> WTERMSIG status \<le> 126"
proof -
  define t where "t = WTERMSIG status"
  have r: "0 \<le> t" "t < 128" using termsig_range [of status] by (simp_all add: t_def)
  have w: "WIFSIGNALED status \<longleftrightarrow> 0 < drop_bit 1 (signed_take_bit 7 (t + 1))"
    by (simp add: WIFSIGNALED_def t_def WTERMSIG_def)
  show ?thesis
  proof (cases "t = 127")
    case True
    then show ?thesis unfolding w t_def[symmetric] by simp
  next
    case False
    with r have "t + 1 < 2 ^ 7" "- (2 ^ 7) \<le> t + 1" by simp_all
    then have "signed_take_bit 7 (t + 1) = t + 1"
      by (rule_tac signed_take_bit_int_eq_self)
    with r False show ?thesis unfolding w t_def[symmetric]
      by (simp add: drop_bit_eq_div) presburger
  qed
qed

lemma stop_is_stopped: "WIFSTOPPED (status_of (Stops s))"
  unfolding WIFSTOPPED_def status_of.simps W_STOPCODE_def low7_mask low8_mask
  by (rule bit_eqI) (auto simp: bit_simps)

lemma low7_of_low8: "(x AND 0xff) AND 0x7f = x AND (0x7f::int)"
  unfolding low7_mask low8_mask
  by (rule bit_eqI) (auto simp: bit_simps)

lemma stopped_termsig: "WIFSTOPPED status \<Longrightarrow> WTERMSIG status = 0x7f"
proof -
  assume "WIFSTOPPED status"
  then have "(status AND 0xff) AND 0x7f = 0x7f AND (0x7f::int)"
    by (simp add: WIFSTOPPED_def)
  then show ?thesis
    by (simp add: low7_of_low8 WTERMSIG_def)
qed

lemma exit_not_stopped: "\<not> WIFSTOPPED (status_of (Exits n))"
  using stopped_termsig [of "status_of (Exits n)"] exit_termsig [of n] by auto

lemma killed_not_stopped:
  "0 \<le> s \<Longrightarrow> s \<le> 126 \<Longrightarrow> \<not> WIFSTOPPED (status_of (Killed s core))"
  using stopped_termsig [of "status_of (Killed s core)"] killed_termsig [of s core] by auto

lemma classify_exit:
  "0 < r \<Longrightarrow> 0 \<le> n \<Longrightarrow> n \<le> 255 \<Longrightarrow> classify_wait r (status_of (Exits n)) e = Exited n"
  by (simp add: classify_wait_def exit_not_stopped WIFEXITED_def exit_termsig exit_status
      del: status_of.simps)

lemma classify_killed:
  "0 < r \<Longrightarrow> 1 \<le> s \<Longrightarrow> s \<le> 126 \<Longrightarrow>
   classify_wait r (status_of (Killed s core)) e = TerminatedBySignal s"
proof -
  assume r: "0 < r" and s: "1 \<le> s" "s \<le> 126"
  from s have t: "WTERMSIG (status_of (Killed s core)) = s"
    by (intro killed_termsig) simp_all
  from s have ns: "\<not> WIFSTOPPED (status_of (Killed s core))"
    by (intro killed_not_stopped) simp_all
  from s t have ne: "\<not> WIFEXITED (status_of (Killed s core))"
    by (simp add: WIFEXITED_def del: status_of.simps)
  from s t have sg: "WIFSIGNALED (status_of (Killed s core))"
    by (simp add: signaled_iff del: status_of.simps)
  from r ns ne sg t show ?thesis
    by (simp only: classify_wait_def if_True if_False)
qed

lemma classify_stop: "0 < r \<Longrightarrow> classify_wait r (status_of (Stops s)) e = StoppedBySignal"
  by (simp only: classify_wait_def stop_is_stopped if_True)

lemma classify_failed: "classify_wait (- 1) status e = WaitFailed e"
  by (simp add: classify_wait_def)

section \<open>What each step does to the state\<close>

lemma emit_fields:
  "shell_pgid (emit e st) = shell_pgid st"
  "self_pid (emit e st) = self_pid st"
  "pgid (emit e st) = pgid st"
  "in_child (emit e st) = in_child st"
  "sigdisp (emit e st) = sigdisp st"
  "stdin_tty (emit e st) = stdin_tty st"
  "tty_fg (emit e st) = tty_fg st"
  "running (emit e st) = running st"
  "trace (emit e st) = trace st @ [e]"
  by (simp_all add: emit_def)

lemma report_wait_fields:
  "shell_pgid (report_wait pid w st) = shell_pgid st"
  "self_pid (report_wait pid w st) = self_pid st"
  "pgid (report_wait pid w st) = pgid st"
  "in_child (report_wait pid w st) = in_child st"
  "sigdisp (report_wait pid w st) = sigdisp st"
  "stdin_tty (report_wait pid w st) = stdin_tty st"
  "tty_fg (report_wait pid w st) = tty_fg st"
  "running (report_wait pid w st) = running st"
  by (cases w; simp add: emit_fields)+

lemma report_wait_trace:
  "\<exists>evs. trace (report_wait pid w st) = trace st @ evs
     \<and> (\<forall>e \<in> set evs. \<not> is_waitpid e \<and> \<not> is_call e)"
  by (cases w) (simp_all add: emit_fields)

lemma tcsetpgrp_fields:
  "shell_pgid (tcsetpgrp ok g st) = shell_pgid st"
  "self_pid (tcsetpgrp ok g st) = self_pid st"
  "pgid (tcsetpgrp ok g st) = pgid st"
  "in_child (tcsetpgrp ok g st) = in_child st"
  "sigdisp (tcsetpgrp ok g st) = sigdisp st"
  "stdin_tty (tcsetpgrp ok g st) = stdin_tty st"
  "tty_fg (tcsetpgrp ok g st) = (if ok then g else tty_fg st)"
  "running (tcsetpgrp ok g st) = running st"
  "trace (tcsetpgrp ok g st) = trace st @ [Sys_tcsetpgrp g]"
  by (simp_all add: tcsetpgrp_def emit_def)

lemma grant_fields:
  "shell_pgid (grant_foreground ok g st) = shell_pgid st"
  "self_pid (grant_foreground ok g st) = self_pid st"
  "pgid (grant_foreground ok g st) = pgid st"
  "in_child (grant_foreground ok g st) = in_child st"
  "sigdisp (grant_foreground ok g st) = sigdisp st"
  "stdin_tty (grant_foreground ok g st) = stdin_tty st"
  "running (grant_foreground ok g st) = running st"
  "trace (grant_foreground ok g st) = trace st @ (if stdin_tty st then [Sys_tcsetpgrp g] else [])"
  by (simp_all add: grant_foreground_def tcsetpgrp_fields)

lemma reclaim_fields:
  "shell_pgid (reclaim_foreground ok st) = shell_pgid st"
  "self_pid (reclaim_foreground ok st) = self_pid st"
  "pgid (reclaim_foreground ok st) = pgid st"
  "in_child (reclaim_foreground ok st) = in_child st"
  "sigdisp (reclaim_foreground ok st) = sigdisp st"
  "stdin_tty (reclaim_foreground ok st) = stdin_tty st"
  "running (reclaim_foreground ok st) = running st"
  "tty_fg (reclaim_foreground ok st) = (if stdin_tty st \<and> ok then shell_pgid st else tty_fg st)"
  "trace (reclaim_foreground ok st) =
     trace st @ (if stdin_tty st then [Sys_tcsetpgrp (shell_pgid st)] else [])"
  by (simp_all add: reclaim_foreground_def tcsetpgrp_fields)

lemmas parent_simps = emit_fields report_wait_fields grant_fields reclaim_fields

lemma parent_branch_fields:
  "shell_pgid (parent_branch pid p env st) = shell_pgid st"
  "self_pid (parent_branch pid p env st) = self_pid st"
  "pgid (parent_branch pid p env st) = pgid st"
  "in_child (parent_branch pid p env st) = in_child st"
  "sigdisp (parent_branch pid p env st) = sigdisp st"
  "stdin_tty (parent_branch pid p env st) = stdin_tty st"
  "running (parent_branch pid p env st) = running st"
  by (simp_all add: parent_branch_def Let_def parent_simps)

lemma parent_branch_shape:
  "\<exists>evs1 evs. trace (parent_branch pid p env st) =
      trace st @ evs1 @ [Sys_waitpid pid [WUNTRACED]] @ evs
        @ (if stdin_tty st then [Sys_tcsetpgrp (shell_pgid st)] else [])
    \<and> (\<forall>e \<in> set (evs1 @ evs). \<not> is_waitpid e \<and> \<not> is_call e)"
proof -
  define st1 where "st1 = (if p \<noteq> 0 then emit (Printf msg_shell_protected [pid]) st else st)"
  define st3 where "st3 = emit (Sys_waitpid pid [WUNTRACED]) (grant_foreground (grant_ok env) pid st1)"
  define w where "w = classify_wait (wait_ret env) (wait_status env) (wait_errno env)"
  define evs1 where "evs1 = (if p \<noteq> 0 then [Printf msg_shell_protected [pid]] else [])
      @ (if stdin_tty st then [Sys_tcsetpgrp pid] else [])"
  obtain evs where evs: "trace (report_wait pid w st3) = trace st3 @ evs"
    "\<forall>e \<in> set evs. \<not> is_waitpid e \<and> \<not> is_call e"
    using report_wait_trace by blast
  have pb: "parent_branch pid p env st = reclaim_foreground (reclaim_ok env) (report_wait pid w st3)"
    by (simp add: parent_branch_def st1_def st3_def w_def Let_def)
  have s3: "stdin_tty st3 = stdin_tty st" "shell_pgid st3 = shell_pgid st"
    by (simp_all add: st3_def st1_def parent_simps)
  have t3: "trace st3 = trace st @ evs1 @ [Sys_waitpid pid [WUNTRACED]]"
    by (simp add: st3_def st1_def evs1_def parent_simps)
  have "trace (parent_branch pid p env st) =
      trace st3 @ evs @ (if stdin_tty st then [Sys_tcsetpgrp (shell_pgid st)] else [])"
    by (simp add: pb evs(1) reclaim_fields report_wait_fields s3)
  with t3 have "trace (parent_branch pid p env st) =
      trace st @ evs1 @ [Sys_waitpid pid [WUNTRACED]] @ evs
        @ (if stdin_tty st then [Sys_tcsetpgrp (shell_pgid st)] else [])"
    by simp
  moreover have "\<forall>e \<in> set (evs1 @ evs). \<not> is_waitpid e \<and> \<not> is_call e"
    using evs(2) by (auto simp: evs1_def)
  ultimately show ?thesis by blast
qed

lemma execute_parent:
  "0 < fork_ret env \<Longrightarrow>
   execute_command args p env st =
     parent_branch (fork_ret env) p env (emit Sys_fork (emit (Call_execute_command args p) st))"
  by (simp add: execute_command_def Let_def)

lemma execute_parent_events:
  "0 < fork_ret env \<Longrightarrow>
   \<exists>evs1 evs. new_events st (execute_command args p env st) =
      (Call_execute_command args p # Sys_fork # evs1) @ [Sys_waitpid (fork_ret env) [WUNTRACED]]
        @ evs @ (if stdin_tty st then [Sys_tcsetpgrp (shell_pgid st)] else [])
    \<and> (\<forall>e \<in> set (evs1 @ evs). \<not> is_waitpid e \<and> \<not> is_call e)"
proof -
  assume pos: "0 < fork_ret env"
  define st1 where "st1 = emit Sys_fork (emit (Call_execute_command args p) st)"
  obtain evs1 evs where t: "trace (parent_branch (fork_ret env) p env st1) =
      trace st1 @ evs1 @ [Sys_waitpid (fork_ret env) [WUNTRACED]] @ evs
        @ (if stdin_tty st1 then [Sys_tcsetpgrp (shell_pgid st1)] else [])"
    and n: "\<forall>e \<in> set (evs1 @ evs). \<not> is_waitpid e \<and> \<not> is_call e"
    using parent_branch_shape by blast
  have t1: "trace st1 = trace st @ [Call_execute_command args p, Sys_fork]"
    "stdin_tty st1 = stdin_tty st" "shell_pgid st1 = shell_pgid st"
    by (simp_all add: st1_def emit_fields)
  from pos have "trace (execute_command args p env st) =
      trace st1 @ evs1 @ [Sys_waitpid (fork_ret env) [WUNTRACED]] @ evs
        @ (if stdin_tty st1 then [Sys_tcsetpgrp (shell_pgid st1)] else [])"
    using t unfolding st1_def by (simp only: execute_parent)
  then have "new_events st (execute_command args p env st) =
      (Call_execute_command args p # Sys_fork # evs1) @ [Sys_waitpid (fork_ret env) [WUNTRACED]]
        @ evs @ (if stdin_tty st then [Sys_tcsetpgrp (shell_pgid st)] else [])"
    by (simp add: new_events_def t1)
  with n show ?thesis by blast
qed

lemma one_wait_call:
  "0 < fork_ret env \<Longrightarrow>
   filter is_waitpid (new_events st (execute_command args p env st)) =
     [Sys_waitpid (fork_ret env) [WUNTRACED]]"
proof -
  assume "0 < fork_ret env"
  from execute_parent_events [OF this, of st args p] obtain evs1 evs where
    t: "new_events st (execute_command args p env st) =
      (Call_execute_command args p # Sys_fork # evs1) @ [Sys_waitpid (fork_ret env) [WUNTRACED]]
        @ evs @ (if stdin_tty st then [Sys_tcsetpgrp (shell_pgid st)] else [])"
    and n: "\<forall>e \<in> set (evs1 @ evs). \<not> is_waitpid e \<and> \<not> is_call e"
    by blast
  from n have "filter is_waitpid evs1 = []" "filter is_waitpid evs = []"
    by (auto simp: filter_empty_conv)
  then show ?thesis by (simp add: t)
qed

text \<open>
  Claim C1. In the shell's process (\<open>fork\<close> has returned the child's id), and when standard
  input is a terminal, whatever \<open>waitpid\<close> returns and stores (an exit, a death by a
  signal, a stop, a failure of the call, or anything else), the last thing
  \<open>execute_command\<close> does is the call \<open>tcsetpgrp(STDIN_FILENO, shell_pgid)\<close>, behind its
  \<open>waitpid\<close>; when the kernel carries that call out, the foreground process group of the
  terminal is \<open>shell_pgid\<close> on return. The function returns to the prompt loop in the
  shell's own image, with \<open>shell_pgid\<close> and the shell's process group as they were.
\<close>

theorem terminal_reclaimed_after_wait:
  "0 < fork_ret env \<Longrightarrow> stdin_tty st \<Longrightarrow>
   (\<exists>before after. new_events st (execute_command args p env st) =
      before @ [Sys_waitpid (fork_ret env) [WUNTRACED]] @ after @ [Sys_tcsetpgrp (shell_pgid st)])
   \<and> (reclaim_ok env \<longrightarrow> tty_fg (execute_command args p env st) = shell_pgid st)
   \<and> shell_pgid (execute_command args p env st) = shell_pgid st
   \<and> pgid (execute_command args p env st) = pgid st
   \<and> running (execute_command args p env st) = running st"
proof -
  assume pos: "0 < fork_ret env" and tty: "stdin_tty st"
  from execute_parent_events [OF pos, of st args p] obtain evs1 evs where
    "new_events st (execute_command args p env st) =
      (Call_execute_command args p # Sys_fork # evs1) @ [Sys_waitpid (fork_ret env) [WUNTRACED]]
        @ evs @ (if stdin_tty st then [Sys_tcsetpgrp (shell_pgid st)] else [])"
    by blast
  with tty have "new_events st (execute_command args p env st) =
      (Call_execute_command args p # Sys_fork # evs1) @ [Sys_waitpid (fork_ret env) [WUNTRACED]]
        @ evs @ [Sys_tcsetpgrp (shell_pgid st)]"
    by (simp only: if_True)
  then have "\<exists>before after. new_events st (execute_command args p env st) =
      before @ [Sys_waitpid (fork_ret env) [WUNTRACED]] @ after @ [Sys_tcsetpgrp (shell_pgid st)]"
    by blast
  moreover from pos tty have "reclaim_ok env \<longrightarrow> tty_fg (execute_command args p env st) = shell_pgid st"
    "shell_pgid (execute_command args p env st) = shell_pgid st"
    "pgid (execute_command args p env st) = pgid st"
    "running (execute_command args p env st) = running st"
    by (simp_all add: execute_command_def parent_branch_def Let_def parent_simps)
  ultimately show ?thesis by blast
qed

theorem terminal_reclaimed_after_wait_witness:
  "0 < fork_ret (sample_reply\<lparr>wait_status := status_of (Stops 20)\<rparr>) \<and> stdin_tty sample_shell
   \<and> (\<exists>before after.
        new_events sample_shell
          (execute_command [''cat''] 0 (sample_reply\<lparr>wait_status := status_of (Stops 20)\<rparr>) sample_shell)
        = before @ [Sys_waitpid 4242 [WUNTRACED]] @ after @ [Sys_tcsetpgrp 100])
   \<and> reclaim_ok (sample_reply\<lparr>wait_status := status_of (Stops 20)\<rparr>)
   \<and> tty_fg (execute_command [''cat''] 0 (sample_reply\<lparr>wait_status := status_of (Stops 20)\<rparr>) sample_shell) = 100
   \<and> running (execute_command [''cat''] 0 (sample_reply\<lparr>wait_status := status_of (Stops 20)\<rparr>) sample_shell) = Shell"
proof -
  have h1: "0 < fork_ret (sample_reply\<lparr>wait_status := status_of (Stops 20)\<rparr>)"
    by (simp add: sample_reply_def)
  have h2: "stdin_tty sample_shell"
    by (simp add: sample_shell_def fresh_proc_def)
  have h3: "reclaim_ok (sample_reply\<lparr>wait_status := status_of (Stops 20)\<rparr>)"
    by (simp add: sample_reply_def)
  have v: "shell_pgid sample_shell = 100" "running sample_shell = Shell"
    "fork_ret (sample_reply\<lparr>wait_status := status_of (Stops 20)\<rparr>) = 4242"
    by (simp_all add: sample_shell_def fresh_proc_def sample_reply_def)
  from terminal_reclaimed_after_wait [OF h1 h2, of "[''cat'']" 0] h1 h2 h3 v
  show ?thesis by (simp del: status_of.simps)
qed

lemma report_wait_appends:
  "trace (report_wait pid w st) = trace st @ trace (report_wait pid w (st\<lparr>trace := []\<rparr>))"
  by (cases w) (simp_all add: emit_def)

text \<open>
  Behind its \<open>waitpid\<close> the shell's side does what the branch taken for the status says,
  and then takes the terminal back.
\<close>

lemma parent_after_wait:
  "0 < fork_ret env \<Longrightarrow>
   after_wait (new_events st (execute_command args p env st)) =
     trace (report_wait (fork_ret env)
         (classify_wait (wait_ret env) (wait_status env) (wait_errno env)) (st\<lparr>trace := []\<rparr>))
       @ (if stdin_tty st then [Sys_tcsetpgrp (shell_pgid st)] else [])"
proof -
  assume pos: "0 < fork_ret env"
  define pid where "pid = fork_ret env"
  define w where "w = classify_wait (wait_ret env) (wait_status env) (wait_errno env)"
  define st0 where "st0 = emit Sys_fork (emit (Call_execute_command args p) st)"
  define st1 where "st1 = (if p \<noteq> 0 then emit (Printf msg_shell_protected [pid]) st0 else st0)"
  define st3 where "st3 = emit (Sys_waitpid pid [WUNTRACED]) (grant_foreground (grant_ok env) pid st1)"
  define before where "before = [Call_execute_command args p, Sys_fork]
      @ (if p \<noteq> 0 then [Printf msg_shell_protected [pid]] else [])
      @ (if stdin_tty st then [Sys_tcsetpgrp pid] else [])"
  define behind where "behind = trace (report_wait pid w (st\<lparr>trace := []\<rparr>))
      @ (if stdin_tty st then [Sys_tcsetpgrp (shell_pgid st)] else [])"
  have s3: "stdin_tty st3 = stdin_tty st" "shell_pgid st3 = shell_pgid st"
    by (simp_all add: st3_def st1_def st0_def parent_simps)
  have t3: "trace st3 = trace st @ before @ [Sys_waitpid pid [WUNTRACED]]"
    by (simp add: st3_def st1_def st0_def before_def parent_simps)
  have same: "report_wait pid w (st3\<lparr>trace := []\<rparr>) = report_wait pid w (st\<lparr>trace := []\<rparr>)
      \<or> trace (report_wait pid w (st3\<lparr>trace := []\<rparr>)) = trace (report_wait pid w (st\<lparr>trace := []\<rparr>))"
    by (cases w) (simp_all add: emit_def)
  then have r: "trace (report_wait pid w st3) =
      trace st3 @ trace (report_wait pid w (st\<lparr>trace := []\<rparr>))"
    using report_wait_appends [of pid w st3] by auto
  from pos have "execute_command args p env st =
      reclaim_foreground (reclaim_ok env) (report_wait pid w st3)"
    by (simp add: execute_command_def parent_branch_def Let_def pid_def w_def st0_def st1_def
        st3_def)
  then have "trace (execute_command args p env st) =
      trace st @ before @ [Sys_waitpid pid [WUNTRACED]] @ behind"
    by (simp add: reclaim_fields report_wait_fields s3 r t3 behind_def)
  then have n: "new_events st (execute_command args p env st) =
      before @ [Sys_waitpid pid [WUNTRACED]] @ behind"
    by (simp add: new_events_def)
  have "\<forall>e \<in> set before. \<not> is_waitpid e"
    by (auto simp: before_def)
  then have "dropWhile (\<lambda>e. \<not> is_waitpid e) (before @ [Sys_waitpid pid [WUNTRACED]] @ behind) =
      [Sys_waitpid pid [WUNTRACED]] @ behind"
    by (simp add: dropWhile_append2)
  then have "after_wait (new_events st (execute_command args p env st)) = behind"
    by (simp add: after_wait_def n)
  then show ?thesis
    by (simp add: behind_def pid_def w_def)
qed

text \<open>
  Claim C2. For a foreground job \<open>execute_command\<close> calls \<open>waitpid\<close> exactly once, on the
  child's id and with \<open>WUNTRACED\<close>, and what it does behind that call is fixed by what the
  call returns and stores. When the call succeeds: for the status of an exit with any code
  \<open>n\<close> from 0 to 255 the chain of tests takes the branch of a normal exit with code \<open>n\<close>,
  and the run prints that code when it is not 0 and nothing when it is; for the status of a
  death by any signal \<open>s\<close> from 1 to 126, with or without a core dump, it takes the branch
  of a death by signal \<open>s\<close> and prints that signal; for the status of a stop by any signal
  it takes the branch of a stop and prints the two lines on the suspended process. When
  the call returns -1 it takes the branch of a failed wait, whatever the status holds, and
  reports it with \<open>perror("waitpid failed")\<close> under the \<open>errno\<close> of the call, and with none
  of the messages of the other branches. In every case the only thing that follows is the
  call that takes the terminal back.
\<close>

theorem wait_classifier_mapping:
  "0 < fork_ret env \<Longrightarrow>
   filter is_waitpid (new_events st (execute_command args p env st)) =
     [Sys_waitpid (fork_ret env) [WUNTRACED]]
   \<and> (0 < wait_ret env \<and> 0 \<le> n \<and> n \<le> 255 \<and> wait_status env = status_of (Exits n) \<longrightarrow>
        classify_wait (wait_ret env) (wait_status env) (wait_errno env) = Exited n
        \<and> after_wait (new_events st (execute_command args p env st)) =
            (if n \<noteq> 0 then [Printf msg_exit_status [n]] else [])
              @ (if stdin_tty st then [Sys_tcsetpgrp (shell_pgid st)] else []))
   \<and> (0 < wait_ret env \<and> 1 \<le> s \<and> s \<le> 126 \<and> wait_status env = status_of (Killed s core) \<longrightarrow>
        classify_wait (wait_ret env) (wait_status env) (wait_errno env) = TerminatedBySignal s
        \<and> after_wait (new_events st (execute_command args p env st)) =
            [Printf msg_term_signal [s]]
              @ (if stdin_tty st then [Sys_tcsetpgrp (shell_pgid st)] else []))
   \<and> (0 < wait_ret env \<and> wait_status env = status_of (Stops s) \<longrightarrow>
        classify_wait (wait_ret env) (wait_status env) (wait_errno env) = StoppedBySignal
        \<and> after_wait (new_events st (execute_command args p env st)) =
            [Printf msg_suspended [fork_ret env], Printf msg_resume_hint [fork_ret env]]
              @ (if stdin_tty st then [Sys_tcsetpgrp (shell_pgid st)] else []))
   \<and> (wait_ret env = - 1 \<longrightarrow>
        classify_wait (wait_ret env) (wait_status env) (wait_errno env) = WaitFailed (wait_errno env)
        \<and> after_wait (new_events st (execute_command args p env st)) =
            [Perror msg_wait_failed (wait_errno env)]
              @ (if stdin_tty st then [Sys_tcsetpgrp (shell_pgid st)] else []))"
proof -
  assume pos: "0 < fork_ret env"
  note aw = parent_after_wait [OF pos, of st args p]
  have one: "filter is_waitpid (new_events st (execute_command args p env st)) =
     [Sys_waitpid (fork_ret env) [WUNTRACED]]"
    using pos by (rule one_wait_call)
  have ex: "0 < wait_ret env \<and> 0 \<le> n \<and> n \<le> 255 \<and> wait_status env = status_of (Exits n) \<longrightarrow>
        classify_wait (wait_ret env) (wait_status env) (wait_errno env) = Exited n
        \<and> after_wait (new_events st (execute_command args p env st)) =
            (if n \<noteq> 0 then [Printf msg_exit_status [n]] else [])
              @ (if stdin_tty st then [Sys_tcsetpgrp (shell_pgid st)] else [])"
  proof
    assume a: "0 < wait_ret env \<and> 0 \<le> n \<and> n \<le> 255 \<and> wait_status env = status_of (Exits n)"
    then have c: "classify_wait (wait_ret env) (wait_status env) (wait_errno env) = Exited n"
      using classify_exit [of "wait_ret env" n "wait_errno env"] by (simp del: status_of.simps)
    show "classify_wait (wait_ret env) (wait_status env) (wait_errno env) = Exited n
        \<and> after_wait (new_events st (execute_command args p env st)) =
            (if n \<noteq> 0 then [Printf msg_exit_status [n]] else [])
              @ (if stdin_tty st then [Sys_tcsetpgrp (shell_pgid st)] else [])"
      using c aw by (simp add: emit_def)
  qed
  have ki: "0 < wait_ret env \<and> 1 \<le> s \<and> s \<le> 126 \<and> wait_status env = status_of (Killed s core) \<longrightarrow>
        classify_wait (wait_ret env) (wait_status env) (wait_errno env) = TerminatedBySignal s
        \<and> after_wait (new_events st (execute_command args p env st)) =
            [Printf msg_term_signal [s]]
              @ (if stdin_tty st then [Sys_tcsetpgrp (shell_pgid st)] else [])"
  proof
    assume a: "0 < wait_ret env \<and> 1 \<le> s \<and> s \<le> 126 \<and> wait_status env = status_of (Killed s core)"
    then have c: "classify_wait (wait_ret env) (wait_status env) (wait_errno env) = TerminatedBySignal s"
      using classify_killed [of "wait_ret env" s core "wait_errno env"] by (simp del: status_of.simps)
    show "classify_wait (wait_ret env) (wait_status env) (wait_errno env) = TerminatedBySignal s
        \<and> after_wait (new_events st (execute_command args p env st)) =
            [Printf msg_term_signal [s]]
              @ (if stdin_tty st then [Sys_tcsetpgrp (shell_pgid st)] else [])"
      using c aw by (simp add: emit_def)
  qed
  have sp: "0 < wait_ret env \<and> wait_status env = status_of (Stops s) \<longrightarrow>
        classify_wait (wait_ret env) (wait_status env) (wait_errno env) = StoppedBySignal
        \<and> after_wait (new_events st (execute_command args p env st)) =
            [Printf msg_suspended [fork_ret env], Printf msg_resume_hint [fork_ret env]]
              @ (if stdin_tty st then [Sys_tcsetpgrp (shell_pgid st)] else [])"
  proof
    assume a: "0 < wait_ret env \<and> wait_status env = status_of (Stops s)"
    then have c: "classify_wait (wait_ret env) (wait_status env) (wait_errno env) = StoppedBySignal"
      using classify_stop [of "wait_ret env" s "wait_errno env"] by (simp del: status_of.simps)
    show "classify_wait (wait_ret env) (wait_status env) (wait_errno env) = StoppedBySignal
        \<and> after_wait (new_events st (execute_command args p env st)) =
            [Printf msg_suspended [fork_ret env], Printf msg_resume_hint [fork_ret env]]
              @ (if stdin_tty st then [Sys_tcsetpgrp (shell_pgid st)] else [])"
      using c aw by (simp add: emit_def)
  qed
  have fa: "wait_ret env = - 1 \<longrightarrow>
        classify_wait (wait_ret env) (wait_status env) (wait_errno env) = WaitFailed (wait_errno env)
        \<and> after_wait (new_events st (execute_command args p env st)) =
            [Perror msg_wait_failed (wait_errno env)]
              @ (if stdin_tty st then [Sys_tcsetpgrp (shell_pgid st)] else [])"
  proof
    assume a: "wait_ret env = - 1"
    then have c: "classify_wait (wait_ret env) (wait_status env) (wait_errno env) = WaitFailed (wait_errno env)"
      using classify_failed [of "wait_status env" "wait_errno env"] by simp
    show "classify_wait (wait_ret env) (wait_status env) (wait_errno env) = WaitFailed (wait_errno env)
        \<and> after_wait (new_events st (execute_command args p env st)) =
            [Perror msg_wait_failed (wait_errno env)]
              @ (if stdin_tty st then [Sys_tcsetpgrp (shell_pgid st)] else [])"
      using c aw by (simp add: emit_def)
  qed
  from one ex ki sp fa show ?thesis by blast
qed

theorem wait_classifier_mapping_witness:
  "0 < fork_ret (sample_reply\<lparr>wait_status := status_of (Exits 3)\<rparr>)
   \<and> 0 < wait_ret (sample_reply\<lparr>wait_status := status_of (Exits 3)\<rparr>)
   \<and> wait_status (sample_reply\<lparr>wait_status := status_of (Exits 3)\<rparr>) = status_of (Exits 3)
   \<and> filter is_waitpid (new_events sample_shell
        (execute_command [''ls''] 0 (sample_reply\<lparr>wait_status := status_of (Exits 3)\<rparr>) sample_shell))
       = [Sys_waitpid 4242 [WUNTRACED]]
   \<and> after_wait (new_events sample_shell
        (execute_command [''ls''] 0 (sample_reply\<lparr>wait_status := status_of (Exits 3)\<rparr>) sample_shell))
       = [Printf msg_exit_status [3], Sys_tcsetpgrp 100]
   \<and> 0 < wait_ret (sample_reply\<lparr>wait_status := status_of (Killed 2 False)\<rparr>)
   \<and> after_wait (new_events sample_shell
        (execute_command [''ls''] 0 (sample_reply\<lparr>wait_status := status_of (Killed 2 False)\<rparr>) sample_shell))
       = [Printf msg_term_signal [2], Sys_tcsetpgrp 100]
   \<and> 0 < wait_ret (sample_reply\<lparr>wait_status := status_of (Stops 20)\<rparr>)
   \<and> after_wait (new_events sample_shell
        (execute_command [''cat''] 0 (sample_reply\<lparr>wait_status := status_of (Stops 20)\<rparr>) sample_shell))
       = [Printf msg_suspended [4242], Printf msg_resume_hint [4242], Sys_tcsetpgrp 100]
   \<and> wait_ret (sample_reply\<lparr>wait_ret := - 1, wait_errno := 10\<rparr>) = - 1
   \<and> after_wait (new_events sample_shell
        (execute_command [''ls''] 0 (sample_reply\<lparr>wait_ret := - 1, wait_errno := 10\<rparr>) sample_shell))
       = [Perror msg_wait_failed 10, Sys_tcsetpgrp 100]"
proof -
  define e1 where "e1 = sample_reply\<lparr>wait_status := status_of (Exits 3)\<rparr>"
  define e2 where "e2 = sample_reply\<lparr>wait_status := status_of (Killed 2 False)\<rparr>"
  define e3 where "e3 = sample_reply\<lparr>wait_status := status_of (Stops 20)\<rparr>"
  define e4 where "e4 = sample_reply\<lparr>wait_ret := - 1, wait_errno := 10\<rparr>"
  have f: "0 < fork_ret e1" "0 < fork_ret e2" "0 < fork_ret e3" "0 < fork_ret e4"
    by (simp_all add: e1_def e2_def e3_def e4_def sample_reply_def)
  have v: "fork_ret e1 = 4242" "fork_ret e3 = 4242" "wait_errno e4 = 10"
    "stdin_tty sample_shell" "shell_pgid sample_shell = 100"
    by (simp_all add: e1_def e3_def e4_def sample_reply_def sample_shell_def fresh_proc_def)
  have h1: "0 < wait_ret e1 \<and> (0::int) \<le> 3 \<and> (3::int) \<le> 255 \<and> wait_status e1 = status_of (Exits 3)"
    by (simp add: e1_def sample_reply_def del: status_of.simps)
  have h2: "0 < wait_ret e2 \<and> (1::int) \<le> 2 \<and> (2::int) \<le> 126
      \<and> wait_status e2 = status_of (Killed 2 False)"
    by (simp add: e2_def sample_reply_def del: status_of.simps)
  have h3: "0 < wait_ret e3 \<and> wait_status e3 = status_of (Stops 20)"
    by (simp add: e3_def sample_reply_def del: status_of.simps)
  have h4: "wait_ret e4 = - 1"
    by (simp add: e4_def)
  note t1 = wait_classifier_mapping [OF f(1), where st = sample_shell and args = "[''ls'']"
      and p = 0 and n = 3 and s = 2 and core = False]
  note t2 = wait_classifier_mapping [OF f(2), where st = sample_shell and args = "[''ls'']"
      and p = 0 and n = 3 and s = 2 and core = False]
  note t3 = wait_classifier_mapping [OF f(3), where st = sample_shell and args = "[''cat'']"
      and p = 0 and n = 3 and s = 20 and core = False]
  note t4 = wait_classifier_mapping [OF f(4), where st = sample_shell and args = "[''ls'']"
      and p = 0 and n = 3 and s = 2 and core = False]
  have a: "filter is_waitpid (new_events sample_shell (execute_command [''ls''] 0 e1 sample_shell))
       = [Sys_waitpid 4242 [WUNTRACED]]"
    using t1 [THEN conjunct1] by (simp only: v)
  have b: "after_wait (new_events sample_shell (execute_command [''ls''] 0 e1 sample_shell))
       = [Printf msg_exit_status [3], Sys_tcsetpgrp 100]"
    using t1 [THEN conjunct2, THEN conjunct1, rule_format, OF h1, THEN conjunct2]
    by (simp add: v)
  have c: "after_wait (new_events sample_shell (execute_command [''ls''] 0 e2 sample_shell))
       = [Printf msg_term_signal [2], Sys_tcsetpgrp 100]"
    using t2 [THEN conjunct2, THEN conjunct2, THEN conjunct1, rule_format, OF h2, THEN conjunct2]
    by (simp add: v)
  have d: "after_wait (new_events sample_shell (execute_command [''cat''] 0 e3 sample_shell))
       = [Printf msg_suspended [4242], Printf msg_resume_hint [4242], Sys_tcsetpgrp 100]"
    using t3 [THEN conjunct2, THEN conjunct2, THEN conjunct2, THEN conjunct1, rule_format, OF h3,
        THEN conjunct2]
    by (simp add: v)
  have e: "after_wait (new_events sample_shell (execute_command [''ls''] 0 e4 sample_shell))
       = [Perror msg_wait_failed 10, Sys_tcsetpgrp 100]"
    using t4 [THEN conjunct2, THEN conjunct2, THEN conjunct2, THEN conjunct2, rule_format, OF h4,
        THEN conjunct2]
    by (simp add: v)
  from f h1 h2 h3 h4 a b c d e show ?thesis
    unfolding e1_def e2_def e3_def e4_def by blast
qed

lemma child_branch_sigdisp:
  "sigdisp (child_branch args p env st) =
     (let d = (sigdisp st)(SIGTSTP := SIG_DFL, SIGINT := (if p \<noteq> 0 then SIG_IGN else SIG_DFL))
      in case execvp_errno env of None \<Rightarrow> exec_disposition \<circ> d | Some e \<Rightarrow> d)"
  by (simp add: child_branch_def Let_def sigaction_def setpgid_def emit_def split: option.split)

lemma child_branch_trace:
  "trace (child_branch args p env st) =
     trace st @ [Sys_setpgid 0 0, Sys_sigaction SIGTSTP SIG_DFL]
       @ (if p \<noteq> 0 then [Sys_sigaction SIGINT SIG_IGN,
             Printf msg_child_protected [child_pid env]]
          else [Sys_sigaction SIGINT SIG_DFL])
       @ [Sys_execvp args]
       @ (case execvp_errno env of None \<Rightarrow> []
          | Some e \<Rightarrow> [Perror msg_exec_failed e, Sys_exit 1])"
  by (simp add: child_branch_def Let_def sigaction_def setpgid_def emit_def split: option.split)

lemma execute_child:
  "fork_ret env = 0 \<Longrightarrow>
   execute_command args p env st =
     child_branch args p env (emit Sys_fork (emit (Call_execute_command args p) st))"
  by (simp add: execute_command_def Let_def)

text \<open>
  Claim C3. In the child (\<open>fork\<close> has returned 0) the disposition of \<open>SIGINT\<close> is "ignore"
  when \<open>protect_sigint\<close> is not zero and the default action when it is zero, set by a
  \<open>sigaction\<close> call before \<open>execvp\<close>, and still so in the program that \<open>execvp\<close> starts. The
  disposition of every other signal is the same for any two values of \<open>protect_sigint\<close>.
\<close>

theorem child_sigint_follows_protect:
  "fork_ret env = 0 \<Longrightarrow>
   sigdisp (execute_command args p env st) SIGINT = (if p \<noteq> 0 then SIG_IGN else SIG_DFL)
   \<and> (\<forall>sig p'. sig \<noteq> SIGINT \<longrightarrow>
        sigdisp (execute_command args p env st) sig = sigdisp (execute_command args p' env st) sig)
   \<and> Sys_sigaction SIGINT (if p \<noteq> 0 then SIG_IGN else SIG_DFL)
        \<in> set (takeWhile (\<lambda>e. e \<noteq> Sys_execvp args) (new_events st (execute_command args p env st)))"
  by (simp add: execute_child child_branch_sigdisp child_branch_trace new_events_def emit_fields
      exec_disposition_def Let_def split: option.split)

theorem child_sigint_follows_protect_witness:
  "fork_ret (sample_reply\<lparr>fork_ret := 0\<rparr>) = 0
   \<and> sigdisp (execute_command [''sleep'', ''5''] 1 (sample_reply\<lparr>fork_ret := 0\<rparr>) sample_shell) SIGINT = SIG_IGN
   \<and> sigdisp (execute_command [''ls''] 0 (sample_reply\<lparr>fork_ret := 0\<rparr>) sample_shell) SIGINT = SIG_DFL
   \<and> sigdisp (execute_command [''ls''] 0 (sample_reply\<lparr>fork_ret := 0\<rparr>) sample_shell) SIGQUIT
       = sigdisp (execute_command [''ls''] 1 (sample_reply\<lparr>fork_ret := 0\<rparr>) sample_shell) SIGQUIT"
proof -
  have h: "fork_ret (sample_reply\<lparr>fork_ret := 0\<rparr>) = 0"
    by simp
  note prot = child_sigint_follows_protect [OF h, of "[''sleep'', ''5'']" 1 sample_shell]
  note plain = child_sigint_follows_protect [OF h, of "[''ls'']" 0 sample_shell]
  have a: "sigdisp (execute_command [''sleep'', ''5''] 1 (sample_reply\<lparr>fork_ret := 0\<rparr>) sample_shell) SIGINT
      = SIG_IGN"
    using prot [THEN conjunct1] by simp
  have b: "sigdisp (execute_command [''ls''] 0 (sample_reply\<lparr>fork_ret := 0\<rparr>) sample_shell) SIGINT = SIG_DFL"
    using plain [THEN conjunct1] by simp
  have c: "sigdisp (execute_command [''ls''] 0 (sample_reply\<lparr>fork_ret := 0\<rparr>) sample_shell) SIGQUIT
       = sigdisp (execute_command [''ls''] 1 (sample_reply\<lparr>fork_ret := 0\<rparr>) sample_shell) SIGQUIT"
    using plain [THEN conjunct2, THEN conjunct1, rule_format, of SIGQUIT 1] by simp
  from h a b c show ?thesis by blast
qed

text \<open>
  Claim C4. In the child the disposition of \<open>SIGTSTP\<close> is the default action, for every
  value of \<open>protect_sigint\<close> and whatever it was in the shell: it is set by a \<open>sigaction\<close>
  call before \<open>execvp\<close>.
\<close>

theorem child_sigtstp_default:
  "fork_ret env = 0 \<Longrightarrow>
   sigdisp (execute_command args p env st) SIGTSTP = SIG_DFL
   \<and> Sys_sigaction SIGTSTP SIG_DFL
        \<in> set (takeWhile (\<lambda>e. e \<noteq> Sys_execvp args) (new_events st (execute_command args p env st)))"
  by (simp add: execute_child child_branch_sigdisp child_branch_trace new_events_def emit_fields
      exec_disposition_def Let_def split: option.split)

theorem child_sigtstp_default_witness:
  "fork_ret (sample_reply\<lparr>fork_ret := 0\<rparr>) = 0
   \<and> sigdisp (execute_command [''sleep'', ''5''] 1 (sample_reply\<lparr>fork_ret := 0\<rparr>)
        (signal_call SIGTSTP SIG_IGN sample_shell)) SIGTSTP = SIG_DFL
   \<and> sigdisp (signal_call SIGTSTP SIG_IGN sample_shell) SIGTSTP = SIG_IGN"
proof -
  have h: "fork_ret (sample_reply\<lparr>fork_ret := 0\<rparr>) = 0"
    by simp
  from child_sigtstp_default [OF h, of "[''sleep'', ''5'']" 1 "signal_call SIGTSTP SIG_IGN sample_shell"] h
  show ?thesis by (simp add: signal_call_def emit_def)
qed

text \<open>
  Claim C6. When \<open>execvp\<close> fails in the child, the child reports it with
  \<open>perror("Command execution failed")\<close> and ends with \<open>exit(1)\<close>: these are the last two
  things it does. In the shell, whose \<open>waitpid\<close> succeeds and stores the status of an exit
  with the code the child has ended with, the chain of tests takes the branch of a normal
  exit with code 1, and all the shell does behind the \<open>waitpid\<close> is to print that exit
  status and take the terminal back: the failure reaches it as an exit status, and in no
  other way.
\<close>

theorem exec_failure_exits_1:
  "fork_ret child_env = 0 \<Longrightarrow> execvp_errno child_env = Some e \<Longrightarrow>
   running (execute_command args p child_env st) = Terminated 1
   \<and> (\<exists>pre. trace (execute_command args p child_env st) =
         pre @ [Sys_execvp args, Perror msg_exec_failed e, Sys_exit 1])
   \<and> (0 < fork_ret env \<and> 0 < wait_ret env
        \<and> running (execute_command args p child_env st) = Terminated code
        \<and> wait_status env = status_of (Exits code) \<longrightarrow>
        classify_wait (wait_ret env) (wait_status env) (wait_errno env) = Exited 1
        \<and> after_wait (new_events st (execute_command args p env st)) =
             [Printf msg_exit_status [1]]
               @ (if stdin_tty st then [Sys_tcsetpgrp (shell_pgid st)] else []))"
proof (intro conjI impI)
  assume a: "fork_ret child_env = 0" "execvp_errno child_env = Some e"
  then show r: "running (execute_command args p child_env st) = Terminated 1"
    by (simp add: execute_child child_branch_def Let_def)
  from a show "\<exists>pre. trace (execute_command args p child_env st) =
         pre @ [Sys_execvp args, Perror msg_exec_failed e, Sys_exit 1]"
    by (simp add: execute_child child_branch_trace)
  assume b: "0 < fork_ret env \<and> 0 < wait_ret env
        \<and> running (execute_command args p child_env st) = Terminated code
        \<and> wait_status env = status_of (Exits code)"
  with r have code: "code = 1"
    by simp
  from b have pos: "0 < fork_ret env" and w: "0 < wait_ret env"
    and ws: "wait_status env = status_of (Exits code)"
    by blast+
  from w ws show c: "classify_wait (wait_ret env) (wait_status env) (wait_errno env) = Exited 1"
    using classify_exit [of "wait_ret env" 1 "wait_errno env"]
    by (simp add: code del: status_of.simps)
  show "after_wait (new_events st (execute_command args p env st)) =
             [Printf msg_exit_status [1]]
               @ (if stdin_tty st then [Sys_tcsetpgrp (shell_pgid st)] else [])"
    using parent_after_wait [OF pos, of st args p] c
    by (simp add: emit_def)
qed

theorem exec_failure_exits_1_witness:
  "fork_ret (sample_reply\<lparr>fork_ret := 0, execvp_errno := Some 2\<rparr>) = 0
   \<and> execvp_errno (sample_reply\<lparr>fork_ret := 0, execvp_errno := Some 2\<rparr>) = Some 2
   \<and> running (execute_command [''nope123''] 0
        (sample_reply\<lparr>fork_ret := 0, execvp_errno := Some 2\<rparr>) sample_shell) = Terminated 1
   \<and> 0 < fork_ret (sample_reply\<lparr>wait_status := status_of (Exits 1)\<rparr>)
   \<and> 0 < wait_ret (sample_reply\<lparr>wait_status := status_of (Exits 1)\<rparr>)
   \<and> wait_status (sample_reply\<lparr>wait_status := status_of (Exits 1)\<rparr>) = status_of (Exits 1)
   \<and> classify_wait (wait_ret (sample_reply\<lparr>wait_status := status_of (Exits 1)\<rparr>))
        (wait_status (sample_reply\<lparr>wait_status := status_of (Exits 1)\<rparr>))
        (wait_errno (sample_reply\<lparr>wait_status := status_of (Exits 1)\<rparr>)) = Exited 1
   \<and> after_wait (new_events sample_shell (execute_command [''nope123''] 0
        (sample_reply\<lparr>wait_status := status_of (Exits 1)\<rparr>) sample_shell))
       = [Printf msg_exit_status [1], Sys_tcsetpgrp 100]"
proof -
  define ce where "ce = sample_reply\<lparr>fork_ret := 0, execvp_errno := Some 2\<rparr>"
  define pe where "pe = sample_reply\<lparr>wait_status := status_of (Exits 1)\<rparr>"
  have h: "fork_ret ce = 0" "execvp_errno ce = Some 2"
    by (simp_all add: ce_def)
  have g: "0 < fork_ret pe" "0 < wait_ret pe" "wait_status pe = status_of (Exits 1)"
    by (simp_all add: pe_def sample_reply_def del: status_of.simps)
  have v: "stdin_tty sample_shell" "shell_pgid sample_shell = 100"
    by (simp_all add: sample_shell_def fresh_proc_def)
  note t = exec_failure_exits_1 [OF h, where args = "[''nope123'']" and p = 0
      and st = sample_shell and env = pe and code = 1]
  have r: "running (execute_command [''nope123''] 0 ce sample_shell) = Terminated 1"
    using t [THEN conjunct1] .
  from g r have q: "0 < fork_ret pe \<and> 0 < wait_ret pe
      \<and> running (execute_command [''nope123''] 0 ce sample_shell) = Terminated 1
      \<and> wait_status pe = status_of (Exits 1)"
    by blast
  note u = t [THEN conjunct2, THEN conjunct2, rule_format, OF q]
  have c: "classify_wait (wait_ret pe) (wait_status pe) (wait_errno pe) = Exited 1"
    using u [THEN conjunct1] .
  have a: "after_wait (new_events sample_shell (execute_command [''nope123''] 0 pe sample_shell))
       = [Printf msg_exit_status [1], Sys_tcsetpgrp 100]"
    using u [THEN conjunct2] by (simp add: v)
  from h g r c a show ?thesis
    unfolding ce_def pe_def by blast
qed

text \<open>
  Claim C9. Taking the terminal back when its foreground process group is already the
  shell's group changes nothing: the foreground group is the same afterwards, whether or
  not the kernel carries the call out, no field of the state but the trace changes, and
  the trace grows by the \<open>tcsetpgrp\<close> call alone (nothing at all when standard input is not
  a terminal), so no error is reported.
\<close>

theorem reclaim_foreground_idempotent:
  "tty_fg st = shell_pgid st \<Longrightarrow>
   tty_fg (reclaim_foreground ok st) = tty_fg st
   \<and> (reclaim_foreground ok st)\<lparr>trace := trace st\<rparr> = st
   \<and> new_events st (reclaim_foreground ok st) =
        (if stdin_tty st then [Sys_tcsetpgrp (shell_pgid st)] else [])"
  by (simp add: reclaim_foreground_def tcsetpgrp_def emit_def new_events_def)

theorem reclaim_foreground_idempotent_witness:
  "tty_fg sample_shell = shell_pgid sample_shell
   \<and> tty_fg (reclaim_foreground True sample_shell) = 100
   \<and> (reclaim_foreground True sample_shell)\<lparr>trace := trace sample_shell\<rparr> = sample_shell
   \<and> new_events sample_shell (reclaim_foreground True sample_shell) = [Sys_tcsetpgrp 100]"
proof -
  have h: "tty_fg sample_shell = shell_pgid sample_shell"
    by (simp add: sample_shell_def fresh_proc_def)
  have v: "tty_fg sample_shell = 100" "stdin_tty sample_shell" "shell_pgid sample_shell = 100"
    by (simp_all add: sample_shell_def fresh_proc_def)
  from reclaim_foreground_idempotent [OF h, of True] h v
  show ?thesis by simp
qed

section \<open>What a run adds to the trace\<close>

lemma quiet_not_call: "quiet e \<Longrightarrow> \<not> is_call e"
  by (cases e) simp_all

lemma quiet_keeps_disposition: "quiet e \<Longrightarrow> \<not> changes_disposition sig e"
  by (cases e) simp_all

lemma report_wait_quiet:
  "\<exists>evs. trace (report_wait pid w st) = trace st @ evs \<and> (\<forall>e \<in> set evs. quiet e)"
  by (cases w) (simp_all add: emit_fields)

lemma parent_branch_quiet:
  "\<exists>evs. trace (parent_branch pid p env st) = trace st @ evs \<and> (\<forall>e \<in> set evs. quiet e)"
proof -
  define st3 where "st3 = emit (Sys_waitpid pid [WUNTRACED]) (grant_foreground (grant_ok env) pid
    (if p \<noteq> 0 then emit (Printf msg_shell_protected [pid]) st else st))"
  define w where "w = classify_wait (wait_ret env) (wait_status env) (wait_errno env)"
  obtain evs where evs: "trace (report_wait pid w st3) = trace st3 @ evs" "\<forall>e \<in> set evs. quiet e"
    using report_wait_quiet by blast
  have pb: "parent_branch pid p env st = reclaim_foreground (reclaim_ok env) (report_wait pid w st3)"
    by (simp add: parent_branch_def st3_def w_def Let_def)
  have "\<exists>evs3. trace st3 = trace st @ evs3 \<and> (\<forall>e \<in> set evs3. quiet e)"
    by (simp add: st3_def parent_simps)
  then obtain evs3 where evs3: "trace st3 = trace st @ evs3" "\<forall>e \<in> set evs3. quiet e"
    by blast
  have "trace (parent_branch pid p env st) =
      trace st @ (evs3 @ evs @ (if stdin_tty (report_wait pid w st3)
         then [Sys_tcsetpgrp (shell_pgid (report_wait pid w st3))] else []))"
    by (simp add: pb reclaim_fields evs(1) evs3(1))
  moreover have "\<forall>e \<in> set (evs3 @ evs @ (if stdin_tty (report_wait pid w st3)
         then [Sys_tcsetpgrp (shell_pgid (report_wait pid w st3))] else [])). quiet e"
    using evs(2) evs3(2) by auto
  ultimately show ?thesis by blast
qed

lemma child_branch_marks:
  "in_child (child_branch args p env st)" "running (child_branch args p env st) \<noteq> Shell"
  by (simp_all add: child_branch_def Let_def sigaction_def setpgid_def emit_def split: option.split)

lemma child_branch_no_call:
  "\<exists>evs. trace (child_branch args p env st) = trace st @ evs \<and> (\<forall>e \<in> set evs. \<not> is_call e)"
  by (cases "execvp_errno env") (auto simp: child_branch_trace)

lemma execute_command_effect:
  "\<exists>evs. trace (execute_command args p env st) = trace st @ Call_execute_command args p # evs
     \<and> (\<forall>e \<in> set evs. \<not> is_call e)
     \<and> ((in_child (execute_command args p env st) \<and> running (execute_command args p env st) \<noteq> Shell)
        \<or> (sigdisp (execute_command args p env st) = sigdisp st
            \<and> in_child (execute_command args p env st) = in_child st
            \<and> running (execute_command args p env st) = running st
            \<and> (\<forall>e \<in> set evs. quiet e)))"
proof -
  define st1 where "st1 = emit Sys_fork (emit (Call_execute_command args p) st)"
  have t1: "trace st1 = trace st @ [Call_execute_command args p, Sys_fork]"
    and f1: "sigdisp st1 = sigdisp st" "in_child st1 = in_child st" "running st1 = running st"
    by (simp_all add: st1_def emit_fields)
  consider (fail) "fork_ret env < 0" | (child) "fork_ret env = 0" | (parent) "0 < fork_ret env"
    by linarith
  then show ?thesis
  proof cases
    case fail
    then have "execute_command args p env st = emit (Perror msg_fork_failed (fork_errno env)) st1"
      by (simp add: execute_command_def st1_def Let_def)
    then show ?thesis
      by (simp add: emit_fields t1 f1)
  next
    case child
    then have e: "execute_command args p env st = child_branch args p env st1"
      by (simp add: execute_child st1_def)
    obtain evs where "trace (child_branch args p env st1) = trace st1 @ evs"
      "\<forall>e \<in> set evs. \<not> is_call e"
      using child_branch_no_call by blast
    then have "trace (execute_command args p env st) =
        trace st @ Call_execute_command args p # (Sys_fork # evs)"
      "\<forall>e \<in> set (Sys_fork # evs). \<not> is_call e"
      by (simp_all add: e t1)
    moreover have "in_child (execute_command args p env st)"
      "running (execute_command args p env st) \<noteq> Shell"
      by (simp_all add: e child_branch_marks)
    ultimately show ?thesis by blast
  next
    case parent
    then have e: "execute_command args p env st = parent_branch (fork_ret env) p env st1"
      by (simp add: execute_parent st1_def)
    obtain evs where evs: "trace (parent_branch (fork_ret env) p env st1) = trace st1 @ evs"
      "\<forall>e \<in> set evs. quiet e"
      using parent_branch_quiet by blast
    then have "trace (execute_command args p env st) =
        trace st @ Call_execute_command args p # (Sys_fork # evs)"
      "\<forall>e \<in> set (Sys_fork # evs). quiet e"
      by (simp_all add: e t1)
    moreover from this(2) have "\<forall>e \<in> set (Sys_fork # evs). \<not> is_call e"
      using quiet_not_call by blast
    moreover have "sigdisp (execute_command args p env st) = sigdisp st"
      "in_child (execute_command args p env st) = in_child st"
      "running (execute_command args p env st) = running st"
      by (simp_all add: e parent_branch_fields f1)
    ultimately show ?thesis by blast
  qed
qed

lemma fold_emit_fields:
  "sigdisp (fold (\<lambda>l. emit (Printf l [])) xs st) = sigdisp st"
  "in_child (fold (\<lambda>l. emit (Printf l [])) xs st) = in_child st"
  "running (fold (\<lambda>l. emit (Printf l [])) xs st) = running st"
  "trace (fold (\<lambda>l. emit (Printf l [])) xs st) = trace st @ map (\<lambda>l. Printf l []) xs"
  by (induction xs arbitrary: st) (simp_all add: emit_fields)

lemma handle_builtin_effect:
  "handle_builtin args env st = (r, st1) \<Longrightarrow>
   sigdisp st1 = sigdisp st \<and> in_child st1 = in_child st \<and> running st1 = running st
   \<and> (\<exists>evs. trace st1 = trace st @ evs \<and> (\<forall>e \<in> set evs. quiet e))"
  by (auto simp: handle_builtin_def Let_def emit_fields fold_emit_fields split: if_splits)

lemma call_ok_if_no_call: "\<not> is_call e \<Longrightarrow> call_ok e"
  by (cases e) simp_all

lemma loop_body_effect:
  "loop_body line env st = (c, st1) \<Longrightarrow>
   \<exists>evs. trace st1 = trace st @ evs \<and> (\<forall>e \<in> set evs. call_ok e)
     \<and> ((in_child st1 \<and> c = NoReturn)
        \<or> (sigdisp st1 = sigdisp st \<and> in_child st1 = in_child st
            \<and> (\<forall>e \<in> set evs. \<not> changes_disposition sig e)))"
proof -
  assume lb: "loop_body line env st = (c, st1)"
  define cmd where "cmd = takeWhile (\<lambda>c. c \<noteq> CHR 0x0A \<and> c \<noteq> CHR 0x00) line"
  define args where "args = parse_command cmd"
  obtain r st2 where hb: "handle_builtin args env st = (r, st2)"
    by (cases "handle_builtin args env st")
  from handle_builtin_effect [OF hb] obtain evs2 where
    h: "sigdisp st2 = sigdisp st" "in_child st2 = in_child st" "running st2 = running st"
      "trace st2 = trace st @ evs2" "\<forall>e \<in> set evs2. quiet e"
    by blast
  have q2: "\<forall>e \<in> set evs2. call_ok e" "\<forall>e \<in> set evs2. \<not> changes_disposition sig e"
    using h(5) quiet_not_call call_ok_if_no_call quiet_keeps_disposition by blast+
  consider (skip) "cmd = [] \<or> args = []"
    | (builtin) "cmd \<noteq> []" "args \<noteq> []" "r = 2 \<or> r = 1"
    | (run) "cmd \<noteq> []" "args \<noteq> []" "r \<noteq> 2" "r \<noteq> 1"
    by blast
  then show ?thesis
  proof cases
    case skip
    with lb have "st1 = st"
      by (auto simp: loop_body_def Let_def cmd_def args_def split: if_splits)
    then show ?thesis by simp
  next
    case builtin
    with lb hb have "st1 = st2" "c \<noteq> NoReturn"
      by (auto simp: loop_body_def Let_def cmd_def[symmetric] args_def[symmetric])
    with h q2 show ?thesis by auto
  next
    case run
    define p where "p = should_protect_sigint (args ! 0)"
    define st3 where "st3 = execute_command args p env st2"
    from run lb hb have s: "st1 = st3" "c = (if running st3 = Shell then Continue else NoReturn)"
      by (auto simp: loop_body_def Let_def cmd_def[symmetric] args_def[symmetric]
          p_def st3_def)
    from execute_command_effect [of args p env st2] obtain evs3 where
      e: "trace st3 = trace st2 @ Call_execute_command args p # evs3"
        "\<forall>e \<in> set evs3. \<not> is_call e"
        "(in_child st3 \<and> running st3 \<noteq> Shell)
          \<or> (sigdisp st3 = sigdisp st2 \<and> in_child st3 = in_child st2
             \<and> running st3 = running st2 \<and> (\<forall>e \<in> set evs3. quiet e))"
      unfolding st3_def by blast
    have t: "trace st1 = trace st @ (evs2 @ Call_execute_command args p # evs3)"
      by (simp add: s e(1) h(4))
    have "call_ok (Call_execute_command args p)"
      using run(2) by (simp add: p_def)
    with q2(1) e(2) have ok: "\<forall>e \<in> set (evs2 @ Call_execute_command args p # evs3). call_ok e"
      using call_ok_if_no_call by auto
    from e(3) show ?thesis
    proof
      assume "in_child st3 \<and> running st3 \<noteq> Shell"
      with s t ok show ?thesis by auto
    next
      assume a: "sigdisp st3 = sigdisp st2 \<and> in_child st3 = in_child st2
             \<and> running st3 = running st2 \<and> (\<forall>e \<in> set evs3. quiet e)"
      then have "\<forall>e \<in> set (evs2 @ Call_execute_command args p # evs3). \<not> changes_disposition sig e"
        using q2(2) quiet_keeps_disposition by auto
      with a s t ok h show ?thesis by auto
    qed
  qed
qed

lemma interrupted_read_effect:
  "\<exists>evs. trace (interrupted_read st) = trace st @ evs \<and> (\<forall>e \<in> set evs. quiet e)
     \<and> in_child (interrupted_read st) = in_child st
     \<and> (sig \<noteq> SIGINT \<longrightarrow> sigdisp (interrupted_read st) sig = sigdisp st sig)"
  by (simp add: interrupted_read_def sigint_handler_def emit_def)

lemma main_loop_effect:
  "sig \<noteq> SIGINT \<Longrightarrow>
   \<exists>evs. trace (main_loop inputs st) = trace st @ evs \<and> (\<forall>e \<in> set evs. call_ok e)
     \<and> (in_child (main_loop inputs st)
        \<or> (sigdisp (main_loop inputs st) sig = sigdisp st sig
            \<and> (\<forall>e \<in> set evs. \<not> changes_disposition sig e)))"
proof (induction inputs st rule: main_loop.induct)
  case (1 st)
  show ?case by (simp add: emit_fields)
next
  case (2 env rest st)
  define st0 where "st0 = interrupted_read (emit (Printf msg_prompt []) st)"
  from interrupted_read_effect [of "emit (Printf msg_prompt []) st" sig] "2.prems"
  obtain hevs where h: "trace st0 = trace st @ (Printf msg_prompt [] # hevs)"
    "\<forall>e \<in> set hevs. quiet e" "in_child st0 = in_child st" "sigdisp st0 sig = sigdisp st sig"
    unfolding st0_def by (auto simp: emit_fields)
  from 2 obtain evs where evs: "trace (main_loop rest st0) = trace st0 @ evs"
    "\<forall>e \<in> set evs. call_ok e"
    "in_child (main_loop rest st0) \<or> (sigdisp (main_loop rest st0) sig = sigdisp st0 sig
       \<and> (\<forall>e \<in> set evs. \<not> changes_disposition sig e))"
    unfolding st0_def by blast
  have m: "main_loop ((Interrupted, env) # rest) st = main_loop rest st0"
    by (simp add: st0_def)
  have q: "\<forall>e \<in> set hevs. call_ok e" "\<forall>e \<in> set hevs. \<not> changes_disposition sig e"
    using h(2) quiet_not_call call_ok_if_no_call quiet_keeps_disposition by blast+
  have "trace (main_loop ((Interrupted, env) # rest) st) =
      trace st @ (Printf msg_prompt [] # hevs @ evs)"
    by (simp add: m evs(1) h(1) del: main_loop.simps)
  moreover have "\<forall>e \<in> set (Printf msg_prompt [] # hevs @ evs). call_ok e"
    using evs(2) q(1) by auto
  moreover have "in_child (main_loop ((Interrupted, env) # rest) st)
      \<or> (sigdisp (main_loop ((Interrupted, env) # rest) st) sig = sigdisp st sig
           \<and> (\<forall>e \<in> set (Printf msg_prompt [] # hevs @ evs). \<not> changes_disposition sig e))"
    using evs(3) q(2) h(4) by (auto simp: m simp del: main_loop.simps)
  ultimately show ?case by blast
next
  case (3 l env rest st)
  define st0 where "st0 = emit (Printf msg_prompt []) st"
  obtain c st1 where lb: "loop_body l env st0 = (c, st1)"
    by (cases "loop_body l env st0")
  from loop_body_effect [OF lb, of sig] obtain evs1 where
    b: "trace st1 = trace st0 @ evs1" "\<forall>e \<in> set evs1. call_ok e"
      "(in_child st1 \<and> c = NoReturn)
        \<or> (sigdisp st1 = sigdisp st0 \<and> in_child st1 = in_child st0
            \<and> (\<forall>e \<in> set evs1. \<not> changes_disposition sig e))"
    by blast
  have t0: "trace st0 = trace st @ [Printf msg_prompt []]" "sigdisp st0 = sigdisp st"
    by (simp_all add: st0_def emit_fields)
  show ?case
  proof (cases c)
    case Continue
    from "3.IH" [OF lb [unfolded st0_def, symmetric] Continue "3.prems"] obtain evs where
      evs: "trace (main_loop rest st1) = trace st1 @ evs"
        "\<forall>e \<in> set evs. call_ok e"
        "in_child (main_loop rest st1) \<or> (sigdisp (main_loop rest st1) sig = sigdisp st1 sig
           \<and> (\<forall>e \<in> set evs. \<not> changes_disposition sig e))"
      by blast
    have m: "main_loop ((Line l, env) # rest) st = main_loop rest st1"
      using lb Continue by (simp add: st0_def)
    have "trace (main_loop ((Line l, env) # rest) st) = trace st @ (Printf msg_prompt [] # evs1 @ evs)"
      by (simp add: m evs(1) b(1) t0 del: main_loop.simps)
    moreover have "\<forall>e \<in> set (Printf msg_prompt [] # evs1 @ evs). call_ok e"
      using evs(2) b(2) by auto
    moreover have "in_child (main_loop ((Line l, env) # rest) st)
      \<or> (sigdisp (main_loop ((Line l, env) # rest) st) sig = sigdisp st sig
           \<and> (\<forall>e \<in> set (Printf msg_prompt [] # evs1 @ evs). \<not> changes_disposition sig e))"
      using evs(3) b(3) Continue t0 by (auto simp: m simp del: main_loop.simps)
    ultimately show ?thesis by blast
  next
    case Break
    have m: "main_loop ((Line l, env) # rest) st = st1"
      using lb Break by (simp add: st0_def)
    have "trace (main_loop ((Line l, env) # rest) st) = trace st @ (Printf msg_prompt [] # evs1)"
      by (simp add: m b(1) t0 del: main_loop.simps)
    moreover have "\<forall>e \<in> set (Printf msg_prompt [] # evs1). call_ok e"
      using b(2) by auto
    moreover have "in_child (main_loop ((Line l, env) # rest) st)
      \<or> (sigdisp (main_loop ((Line l, env) # rest) st) sig = sigdisp st sig
           \<and> (\<forall>e \<in> set (Printf msg_prompt [] # evs1). \<not> changes_disposition sig e))"
      using b(3) Break t0 by (auto simp: m simp del: main_loop.simps)
    ultimately show ?thesis by blast
  next
    case NoReturn
    have m: "main_loop ((Line l, env) # rest) st = st1"
      using lb NoReturn by (simp add: st0_def)
    have "trace (main_loop ((Line l, env) # rest) st) = trace st @ (Printf msg_prompt [] # evs1)"
      by (simp add: m b(1) t0 del: main_loop.simps)
    moreover have "\<forall>e \<in> set (Printf msg_prompt [] # evs1). call_ok e"
      using b(2) by auto
    moreover have "in_child (main_loop ((Line l, env) # rest) st)
      \<or> (sigdisp (main_loop ((Line l, env) # rest) st) sig = sigdisp st sig
           \<and> (\<forall>e \<in> set (Printf msg_prompt [] # evs1). \<not> changes_disposition sig e))"
      using b(3) NoReturn t0 by (auto simp: m simp del: main_loop.simps)
    ultimately show ?thesis by blast
  qed
qed

section \<open>The prompt loop and the start of the shell\<close>

lemma parse_command_Nil: "parse_command [] = []"
  by (simp add: parse_command_def strtok_def)

lemma handle_builtin_zero:
  "fst (handle_builtin args env st) = 0 \<Longrightarrow> handle_builtin args env st = (0, st)"
  by (auto simp: handle_builtin_def Let_def split: if_splits)

lemma execute_fork_failed:
  "fork_ret env < 0 \<Longrightarrow>
   execute_command args p env st =
     st\<lparr>trace := trace st @ [Call_execute_command args p, Sys_fork,
        Perror msg_fork_failed (fork_errno env)]\<rparr>"
  by (simp add: execute_command_def Let_def emit_def)

text \<open>
  Claim C7. When \<open>fork\<close> fails, \<open>execute_command\<close> reports it with \<open>perror("fork failed")\<close>
  and returns: the state is as before but for the trace, which holds the entry into the
  function, the \<open>fork\<close> and the message, hence no \<open>tcsetpgrp\<close>, no \<open>setpgid\<close> and no
  \<open>waitpid\<close>. The loop of \<open>main\<close> then goes on with the rest of the input, from that state.
\<close>

theorem fork_failure_no_action:
  "fork_ret env < 0 \<Longrightarrow>
   execute_command args p env st =
     st\<lparr>trace := trace st @ [Call_execute_command args p, Sys_fork,
        Perror msg_fork_failed (fork_errno env)]\<rparr>
   \<and> (args = parse_command (takeWhile (\<lambda>c. c \<noteq> CHR 0x0A \<and> c \<noteq> CHR 0x00) line) \<and> args \<noteq> []
        \<and> fst (handle_builtin args env (emit (Printf msg_prompt []) st)) = 0
        \<and> running st = Shell \<longrightarrow>
      main_loop ((Line line, env) # rest) st =
        main_loop rest (st\<lparr>trace := trace st @ [Printf msg_prompt [],
          Call_execute_command args (should_protect_sigint (args ! 0)), Sys_fork,
          Perror msg_fork_failed (fork_errno env)]\<rparr>))"
proof (intro conjI impI)
  assume f: "fork_ret env < 0"
  then show "execute_command args p env st =
     st\<lparr>trace := trace st @ [Call_execute_command args p, Sys_fork,
        Perror msg_fork_failed (fork_errno env)]\<rparr>"
    by (rule execute_fork_failed)
  assume a: "args = parse_command (takeWhile (\<lambda>c. c \<noteq> CHR 0x0A \<and> c \<noteq> CHR 0x00) line) \<and> args \<noteq> []
        \<and> fst (handle_builtin args env (emit (Printf msg_prompt []) st)) = 0
        \<and> running st = Shell"
  define st0 where "st0 = emit (Printf msg_prompt []) st"
  define cmd where "cmd = takeWhile (\<lambda>c. c \<noteq> CHR 0x0A \<and> c \<noteq> CHR 0x00) line"
  define prot where "prot = should_protect_sigint (args ! 0)"
  from a have a1: "parse_command cmd = args" and a2: "args \<noteq> []" and a4: "running st = Shell"
    unfolding cmd_def by blast+
  from a1 a2 have c: "cmd \<noteq> []"
    using parse_command_Nil by auto
  from a have "fst (handle_builtin args env st0) = 0"
    unfolding st0_def by blast
  then have hb: "handle_builtin args env st0 = (0, st0)"
    by (rule handle_builtin_zero)
  have ex: "execute_command args prot env st0 =
      st\<lparr>trace := trace st @ [Printf msg_prompt [], Call_execute_command args prot, Sys_fork,
        Perror msg_fork_failed (fork_errno env)]\<rparr>"
    by (simp add: execute_fork_failed [OF f] st0_def emit_def)
  then have r: "running (execute_command args prot env st0) = Shell"
    by (simp add: a4)
  have "loop_body line env st0 = (Continue, execute_command args prot env st0)"
    by (simp add: loop_body_def Let_def cmd_def[symmetric] a1 a2 c hb r prot_def[symmetric])
  then have "main_loop ((Line line, env) # rest) st =
      main_loop rest (execute_command args prot env st0)"
    by (simp add: st0_def)
  also have "\<dots> = main_loop rest (st\<lparr>trace := trace st @ [Printf msg_prompt [],
          Call_execute_command args prot, Sys_fork,
          Perror msg_fork_failed (fork_errno env)]\<rparr>)"
    by (simp only: ex)
  finally show "main_loop ((Line line, env) # rest) st =
        main_loop rest (st\<lparr>trace := trace st @ [Printf msg_prompt [],
          Call_execute_command args (should_protect_sigint (args ! 0)), Sys_fork,
          Perror msg_fork_failed (fork_errno env)]\<rparr>)"
    unfolding prot_def .
qed

theorem fork_failure_no_action_witness:
  "fork_ret (sample_reply\<lparr>fork_ret := - 1, fork_errno := 11\<rparr>) < 0
   \<and> execute_command [''ls'', ''-la''] 0 (sample_reply\<lparr>fork_ret := - 1, fork_errno := 11\<rparr>) sample_shell =
       sample_shell\<lparr>trace := trace sample_shell @ [Call_execute_command [''ls'', ''-la''] 0, Sys_fork,
         Perror msg_fork_failed 11]\<rparr>
   \<and> [''ls'', ''-la''] = parse_command (takeWhile (\<lambda>c. c \<noteq> CHR 0x0A \<and> c \<noteq> CHR 0x00) sample_line)
   \<and> fst (handle_builtin [''ls'', ''-la''] (sample_reply\<lparr>fork_ret := - 1, fork_errno := 11\<rparr>)
        (emit (Printf msg_prompt []) sample_shell)) = 0
   \<and> running sample_shell = Shell
   \<and> main_loop [(Line sample_line, sample_reply\<lparr>fork_ret := - 1, fork_errno := 11\<rparr>)] sample_shell =
       main_loop [] (sample_shell\<lparr>trace := trace sample_shell @ [Printf msg_prompt [],
         Call_execute_command [''ls'', ''-la''] 0, Sys_fork, Perror msg_fork_failed 11]\<rparr>)"
proof -
  have h: "fork_ret (sample_reply\<lparr>fork_ret := - 1, fork_errno := 11\<rparr>) < 0"
    by simp
  have p: "should_protect_sigint ([''ls'', ''-la''] ! 0) = 0"
    by (simp add: should_protect_sigint_def protected_def)
  have r: "running sample_shell = Shell"
    by (simp add: sample_shell_def fresh_proc_def)
  from fork_failure_no_action [OF h, of "[''ls'', ''-la'']" 0 sample_shell sample_line "[]"]
    h p r parse_sample_line handle_builtin_sample
  show ?thesis by (simp del: main_loop.simps)
qed

text \<open>
  Claim C10. Every entry into \<open>execute_command\<close> that the loop of \<open>main\<close> makes, on any
  input and from any state, has a non-empty argument list (\<open>args[0]\<close> is not NULL), and its
  flag is \<open>should_protect_sigint(args[0])\<close>. A line on which \<open>parse_command\<close> finds no
  argument is skipped with the state unchanged, and \<open>handle_builtin\<close> answers 1, "handled",
  to an argument list whose first entry is NULL.
\<close>

theorem execute_command_args_nonempty:
  "(Call_execute_command args p \<in> set (new_events st (main_loop inputs st)) \<longrightarrow>
      args \<noteq> [] \<and> p = should_protect_sigint (args ! 0))
   \<and> (parse_command (takeWhile (\<lambda>c. c \<noteq> CHR 0x0A \<and> c \<noteq> CHR 0x00) line) = [] \<longrightarrow>
        loop_body line env st = (Continue, st))
   \<and> handle_builtin [] env st = (1, st)"
proof (intro conjI impI)
  obtain evs where evs: "trace (main_loop inputs st) = trace st @ evs" "\<forall>e \<in> set evs. call_ok e"
    using main_loop_effect [of SIGQUIT inputs st] by blast
  assume "Call_execute_command args p \<in> set (new_events st (main_loop inputs st))"
  then have "call_ok (Call_execute_command args p)"
    using evs by (auto simp: new_events_def simp del: call_ok.simps)
  then show "args \<noteq> []" "p = should_protect_sigint (args ! 0)"
    by simp_all
next
  assume "parse_command (takeWhile (\<lambda>c. c \<noteq> CHR 0x0A \<and> c \<noteq> CHR 0x00) line) = []"
  then show "loop_body line env st = (Continue, st)"
    by (simp add: loop_body_def Let_def)
next
  show "handle_builtin [] env st = (1, st)"
    by (simp add: handle_builtin_def)
qed

theorem execute_command_args_nonempty_witness:
  "Call_execute_command [''ls'', ''-la''] 0
     \<in> set (new_events sample_shell (main_loop [(Line sample_line, sample_reply)] sample_shell))
   \<and> [''ls'', ''-la''] \<noteq> [] \<and> 0 = should_protect_sigint ([''ls'', ''-la''] ! 0)
   \<and> parse_command (takeWhile (\<lambda>c. c \<noteq> CHR 0x0A \<and> c \<noteq> CHR 0x00) [CHR '' '', CHR 0x0A]) = []
   \<and> loop_body [CHR '' '', CHR 0x0A] sample_reply sample_shell = (Continue, sample_shell)"
proof -
  have p: "should_protect_sigint ([''ls'', ''-la''] ! 0) = 0"
    by (simp add: should_protect_sigint_def protected_def)
  have e: "parse_command (takeWhile (\<lambda>c. c \<noteq> CHR 0x0A \<and> c \<noteq> CHR 0x00) [CHR '' '', CHR 0x0A]) = []"
    by (simp add: parse_command_def strtok_def is_delim_def)
  have p': "should_protect_sigint ''ls'' = 0"
    by (simp add: should_protect_sigint_def protected_def)
  have c: "takeWhile (\<lambda>c. c \<noteq> CHR 0x0A \<and> c \<noteq> CHR 0x00) sample_line = ''ls -la''"
    by (simp add: sample_line_def)
  have a: "parse_command ''ls -la'' = [''ls'', ''-la'']"
    using parse_sample_line by (simp only: c)
  have m: "Call_execute_command [''ls'', ''-la''] 0
     \<in> set (new_events sample_shell (main_loop [(Line sample_line, sample_reply)] sample_shell))"
    by (simp add: loop_body_def c a handle_builtin_def p' new_events_def run_defs
        sample_reply_def sample_shell_def)
  from execute_command_args_nonempty [where args = "[''ls'', ''-la'']" and p = 0
      and st = sample_shell and inputs = "[(Line sample_line, sample_reply)]"
      and line = "[CHR '' '', CHR 0x0A]" and env = sample_reply] p e m
  show ?thesis by simp
qed

lemma await_foreground_effect:
  "await_foreground answers st = Some st1 \<Longrightarrow>
   sigdisp st1 = sigdisp st \<and> in_child st1 = in_child st \<and> stdin_tty st1 = stdin_tty st
   \<and> (\<exists>evs. trace st1 = trace st @ evs \<and> (\<forall>e \<in> set evs. \<exists>g. e = Sys_kill g SIGTTIN))"
proof (induction answers arbitrary: st)
  case Nil
  then show ?case by simp
next
  case (Cons fg answers)
  show ?case
  proof (cases "fg = pgid st")
    case True
    with Cons.prems show ?thesis by (auto simp: Let_def)
  next
    case False
    define st' where "st' = emit (Sys_kill (- pgid st) SIGTTIN) (st\<lparr>shell_pgid := pgid st, tty_fg := fg\<rparr>)"
    from False Cons.prems have "await_foreground answers st' = Some st1"
      by (simp add: Let_def st'_def)
    from Cons.IH [OF this] show ?thesis
      by (auto simp: st'_def emit_def)
  qed
qed

lemma await_foreground_returns:
  "pgid st \<in> set answers \<Longrightarrow> await_foreground answers st \<noteq> None"
proof (induction answers arbitrary: st)
  case Nil
  then show ?case by simp
next
  case (Cons fg answers)
  show ?case
  proof (cases "fg = pgid st")
    case True
    then show ?thesis by (simp add: Let_def)
  next
    case False
    with Cons.prems have "pgid st \<in> set answers" by simp
    with False Cons.IH [of "emit (Sys_kill (- pgid st) SIGTTIN) (st\<lparr>shell_pgid := pgid st, tty_fg := fg\<rparr>)"]
    show ?thesis by (simp add: Let_def emit_def)
  qed
qed

lemma signal_call_fields:
  "shell_pgid (signal_call s d st) = shell_pgid st"
  "self_pid (signal_call s d st) = self_pid st"
  "pgid (signal_call s d st) = pgid st"
  "in_child (signal_call s d st) = in_child st"
  "sigdisp (signal_call s d st) = (sigdisp st)(s := d)"
  "stdin_tty (signal_call s d st) = stdin_tty st"
  "trace (signal_call s d st) = trace st @ [Sys_signal s d]"
  by (simp_all add: signal_call_def emit_def)

lemma setpgid_fields:
  "shell_pgid (setpgid p g st) = shell_pgid st"
  "in_child (setpgid p g st) = in_child st"
  "sigdisp (setpgid p g st) = sigdisp st"
  "stdin_tty (setpgid p g st) = stdin_tty st"
  "trace (setpgid p g st) = trace st @ [Sys_setpgid p g]"
  by (simp_all add: setpgid_def emit_def)

lemma init_shell_effect:
  "stdin_tty st \<Longrightarrow> init_shell answers ok st = Some st1 \<Longrightarrow>
   in_child st1 = in_child st
   \<and> sigdisp st1 = (sigdisp st)(SIGINT := Handler_sigint, SIGQUIT := SIG_IGN, SIGTSTP := SIG_IGN,
        SIGTTIN := SIG_IGN, SIGTTOU := SIG_IGN)
   \<and> (\<exists>evs g. trace st1 = trace st @ evs @ [Sys_signal SIGINT Handler_sigint,
          Sys_signal SIGQUIT SIG_IGN, Sys_signal SIGTSTP SIG_IGN, Sys_signal SIGTTIN SIG_IGN,
          Sys_signal SIGTTOU SIG_IGN, Sys_setpgid g g, Sys_tcsetpgrp g, Sys_tcgetattr]
        \<and> (\<forall>e \<in> set evs. \<exists>g. e = Sys_kill g SIGTTIN))"
proof -
  assume tty: "stdin_tty st" and i: "init_shell answers ok st = Some st1"
  then obtain st0 where a: "await_foreground answers st = Some st0"
    by (auto simp: init_shell_def split: option.splits)
  from await_foreground_effect [OF a] obtain evs where
    e: "sigdisp st0 = sigdisp st" "in_child st0 = in_child st"
      "trace st0 = trace st @ evs" "\<forall>e \<in> set evs. \<exists>g. e = Sys_kill g SIGTTIN"
    by blast
  define st6 where "st6 = signal_call SIGTTOU SIG_IGN (signal_call SIGTTIN SIG_IGN
    (signal_call SIGTSTP SIG_IGN (signal_call SIGQUIT SIG_IGN (signal_call SIGINT Handler_sigint st0))))"
  define g where "g = shell_pgid st6"
  from tty i a have st1: "st1 = emit Sys_tcgetattr (tcsetpgrp ok g (setpgid g g st6))"
    by (simp add: init_shell_def Let_def st6_def[symmetric] g_def setpgid_fields)
  have "in_child st1 = in_child st"
    by (simp add: st1 emit_fields tcsetpgrp_fields setpgid_fields st6_def signal_call_fields e)
  moreover have "sigdisp st1 = (sigdisp st)(SIGINT := Handler_sigint, SIGQUIT := SIG_IGN,
      SIGTSTP := SIG_IGN, SIGTTIN := SIG_IGN, SIGTTOU := SIG_IGN)"
    by (simp add: st1 emit_fields tcsetpgrp_fields setpgid_fields st6_def signal_call_fields e)
  moreover have "trace st1 = trace st @ evs @ [Sys_signal SIGINT Handler_sigint,
          Sys_signal SIGQUIT SIG_IGN, Sys_signal SIGTSTP SIG_IGN, Sys_signal SIGTTIN SIG_IGN,
          Sys_signal SIGTTOU SIG_IGN, Sys_setpgid g g, Sys_tcsetpgrp g, Sys_tcgetattr]"
    by (simp add: st1 emit_fields tcsetpgrp_fields setpgid_fields st6_def signal_call_fields e)
  ultimately show ?thesis
    using e(4) by blast
qed

text \<open>
  The global \<open>shell_pgid\<close> that the reclaim step hands to \<open>tcsetpgrp\<close>: once an
  interactive shell is through \<open>init_shell\<close>, it holds the process group of the shell (a
  positive number, as every process group id is), and the terminal is in that group's
  hands.
\<close>

lemma await_foreground_group:
  "await_foreground answers st = Some st1 \<Longrightarrow>
   shell_pgid st1 = pgid st \<and> pgid st1 = pgid st \<and> tty_fg st1 = pgid st
   \<and> self_pid st1 = self_pid st"
proof (induction answers arbitrary: st)
  case Nil
  then show ?case by simp
next
  case (Cons fg answers)
  show ?case
  proof (cases "fg = pgid st")
    case True
    with Cons.prems show ?thesis by (auto simp: Let_def)
  next
    case False
    define st' where "st' = emit (Sys_kill (- pgid st) SIGTTIN) (st\<lparr>shell_pgid := pgid st, tty_fg := fg\<rparr>)"
    from False Cons.prems have "await_foreground answers st' = Some st1"
      by (simp add: Let_def st'_def)
    from Cons.IH [OF this] show ?thesis
      by (simp add: st'_def emit_def)
  qed
qed

lemma init_shell_group:
  "stdin_tty st \<Longrightarrow> 0 < pgid st \<Longrightarrow> init_shell answers ok st = Some st1 \<Longrightarrow>
   shell_pgid st1 = pgid st1 \<and> pgid st1 = pgid st \<and> tty_fg st1 = pgid st1"
proof -
  assume tty: "stdin_tty st" and pos: "0 < pgid st" and i: "init_shell answers ok st = Some st1"
  then obtain st0 where a: "await_foreground answers st = Some st0"
    by (auto simp: init_shell_def split: option.splits)
  from await_foreground_group [OF a] have
    g: "shell_pgid st0 = pgid st" "pgid st0 = pgid st" "tty_fg st0 = pgid st"
    by simp_all
  define st6 where "st6 = signal_call SIGTTOU SIG_IGN (signal_call SIGTTIN SIG_IGN
    (signal_call SIGTSTP SIG_IGN (signal_call SIGQUIT SIG_IGN (signal_call SIGINT Handler_sigint st0))))"
  have f6: "shell_pgid st6 = pgid st" "pgid st6 = pgid st" "tty_fg st6 = pgid st"
    by (simp_all add: st6_def signal_call_def emit_def g)
  from tty i a have st1: "st1 = emit Sys_tcgetattr
      (tcsetpgrp ok (pgid st) (setpgid (pgid st) (pgid st) st6))"
    by (simp add: init_shell_def Let_def st6_def[symmetric] f6 setpgid_fields)
  from pos show ?thesis
    by (simp add: st1 emit_fields tcsetpgrp_fields setpgid_def emit_def f6)
qed

lemma main_effect:
  "stdin_tty st \<Longrightarrow> main answers ok inputs st = Some st' \<Longrightarrow>
   sig \<in> {SIGQUIT, SIGTSTP, SIGTTIN, SIGTTOU} \<Longrightarrow>
   \<exists>evs1 evs2. new_events st st' = evs1 @ [Sys_signal sig SIG_IGN] @ evs2
     \<and> (\<forall>e \<in> set evs1. \<not> changes_disposition sig e \<and> e \<noteq> Printf msg_prompt [])
     \<and> (in_child st' \<or> (sigdisp st' sig = SIG_IGN \<and> (\<forall>e \<in> set evs2. \<not> changes_disposition sig e)))"
proof -
  assume tty: "stdin_tty st" and m: "main answers ok inputs st = Some st'"
    and sig: "sig \<in> {SIGQUIT, SIGTSTP, SIGTTIN, SIGTTOU}"
  from m obtain st1 where i: "init_shell answers ok st = Some st1"
    by (auto simp: main_def split: option.splits)
  define st2 where "st2 = emit (Printf msg_type_exit []) (emit (Printf msg_type_help [])
    (emit (Printf msg_banner []) st1))"
  from m i have s': "st' = main_loop inputs st2"
    by (simp add: main_def st2_def)
  from init_shell_effect [OF tty i] obtain evs g where
    e: "in_child st1 = in_child st"
      "sigdisp st1 = (sigdisp st)(SIGINT := Handler_sigint, SIGQUIT := SIG_IGN,
         SIGTSTP := SIG_IGN, SIGTTIN := SIG_IGN, SIGTTOU := SIG_IGN)"
      "trace st1 = trace st @ evs @ [Sys_signal SIGINT Handler_sigint,
          Sys_signal SIGQUIT SIG_IGN, Sys_signal SIGTSTP SIG_IGN, Sys_signal SIGTTIN SIG_IGN,
          Sys_signal SIGTTOU SIG_IGN, Sys_setpgid g g, Sys_tcsetpgrp g, Sys_tcgetattr]"
      "\<forall>e \<in> set evs. \<exists>g. e = Sys_kill g SIGTTIN"
    by blast
  from sig have ns: "sig \<noteq> SIGINT"
    by auto
  from main_loop_effect [OF ns, of inputs st2] obtain evs3 where
    l: "trace st' = trace st2 @ evs3"
      "in_child st' \<or> (sigdisp st' sig = sigdisp st2 sig
         \<and> (\<forall>e \<in> set evs3. \<not> changes_disposition sig e))"
    unfolding s' by blast
  define tail where "tail = [Sys_setpgid g g, Sys_tcsetpgrp g, Sys_tcgetattr,
      Printf msg_banner [], Printf msg_type_help [], Printf msg_type_exit []] @ evs3"
  have t: "new_events st st' = evs @ [Sys_signal SIGINT Handler_sigint,
          Sys_signal SIGQUIT SIG_IGN, Sys_signal SIGTSTP SIG_IGN, Sys_signal SIGTTIN SIG_IGN,
          Sys_signal SIGTTOU SIG_IGN] @ tail"
    by (simp add: new_events_def l(1) st2_def emit_fields e(3) tail_def)
  have d2: "sigdisp st2 sig = SIG_IGN"
    using sig by (auto simp: st2_def emit_fields e(2))
  have k: "\<forall>e \<in> set evs. \<not> changes_disposition sig e \<and> e \<noteq> Printf msg_prompt []"
    using e(4) by auto
  have tl: "in_child st' \<or> (sigdisp st' sig = SIG_IGN \<and> (\<forall>e \<in> set tail. \<not> changes_disposition sig e))"
    using l(2) d2 by (auto simp: tail_def)
  from sig consider "sig = SIGQUIT" | "sig = SIGTSTP" | "sig = SIGTTIN" | "sig = SIGTTOU"
    by blast
  then show ?thesis
  proof cases
    case 1
    have "new_events st st' = (evs @ [Sys_signal SIGINT Handler_sigint]) @ [Sys_signal sig SIG_IGN]
        @ ([Sys_signal SIGTSTP SIG_IGN, Sys_signal SIGTTIN SIG_IGN, Sys_signal SIGTTOU SIG_IGN] @ tail)"
      by (simp add: t 1)
    moreover have "\<forall>e \<in> set (evs @ [Sys_signal SIGINT Handler_sigint]).
        \<not> changes_disposition sig e \<and> e \<noteq> Printf msg_prompt []"
      using k by (auto simp: 1)
    moreover have "in_child st' \<or> (sigdisp st' sig = SIG_IGN \<and>
        (\<forall>e \<in> set ([Sys_signal SIGTSTP SIG_IGN, Sys_signal SIGTTIN SIG_IGN,
            Sys_signal SIGTTOU SIG_IGN] @ tail). \<not> changes_disposition sig e))"
      using tl by (auto simp: 1)
    ultimately show ?thesis by blast
  next
    case 2
    have "new_events st st' = (evs @ [Sys_signal SIGINT Handler_sigint, Sys_signal SIGQUIT SIG_IGN])
        @ [Sys_signal sig SIG_IGN]
        @ ([Sys_signal SIGTTIN SIG_IGN, Sys_signal SIGTTOU SIG_IGN] @ tail)"
      by (simp add: t 2)
    moreover have "\<forall>e \<in> set (evs @ [Sys_signal SIGINT Handler_sigint, Sys_signal SIGQUIT SIG_IGN]).
        \<not> changes_disposition sig e \<and> e \<noteq> Printf msg_prompt []"
      using k by (auto simp: 2)
    moreover have "in_child st' \<or> (sigdisp st' sig = SIG_IGN \<and>
        (\<forall>e \<in> set ([Sys_signal SIGTTIN SIG_IGN, Sys_signal SIGTTOU SIG_IGN] @ tail).
            \<not> changes_disposition sig e))"
      using tl by (auto simp: 2)
    ultimately show ?thesis by blast
  next
    case 3
    have "new_events st st' = (evs @ [Sys_signal SIGINT Handler_sigint, Sys_signal SIGQUIT SIG_IGN,
          Sys_signal SIGTSTP SIG_IGN])
        @ [Sys_signal sig SIG_IGN] @ ([Sys_signal SIGTTOU SIG_IGN] @ tail)"
      by (simp add: t 3)
    moreover have "\<forall>e \<in> set (evs @ [Sys_signal SIGINT Handler_sigint, Sys_signal SIGQUIT SIG_IGN,
          Sys_signal SIGTSTP SIG_IGN]).
        \<not> changes_disposition sig e \<and> e \<noteq> Printf msg_prompt []"
      using k by (auto simp: 3)
    moreover have "in_child st' \<or> (sigdisp st' sig = SIG_IGN \<and>
        (\<forall>e \<in> set ([Sys_signal SIGTTOU SIG_IGN] @ tail). \<not> changes_disposition sig e))"
      using tl by (auto simp: 3)
    ultimately show ?thesis by blast
  next
    case 4
    have "new_events st st' = (evs @ [Sys_signal SIGINT Handler_sigint, Sys_signal SIGQUIT SIG_IGN,
          Sys_signal SIGTSTP SIG_IGN, Sys_signal SIGTTIN SIG_IGN])
        @ [Sys_signal sig SIG_IGN] @ tail"
      by (simp add: t 4)
    moreover have "\<forall>e \<in> set (evs @ [Sys_signal SIGINT Handler_sigint, Sys_signal SIGQUIT SIG_IGN,
          Sys_signal SIGTSTP SIG_IGN, Sys_signal SIGTTIN SIG_IGN]).
        \<not> changes_disposition sig e \<and> e \<noteq> Printf msg_prompt []"
      using k by (auto simp: 4)
    ultimately show ?thesis using tl by blast
  qed
qed

lemma main_returns:
  "pgid st \<in> set answers \<or> \<not> stdin_tty st \<Longrightarrow> main answers ok inputs st \<noteq> None"
  using await_foreground_returns [of st answers]
  by (auto simp: main_def init_shell_def Let_def split: option.splits)

text \<open>
  Claim C8, amended. When standard input is a terminal, \<open>main\<close> reaches its loop as soon as
  one answer of \<open>tcgetpgrp\<close> is the shell's own group. For each of \<open>SIGQUIT\<close>, \<open>SIGTSTP\<close>,
  \<open>SIGTTIN\<close> and \<open>SIGTTOU\<close>, a run of \<open>main\<close> then sets the disposition to "ignore" before
  the first prompt, and in the shell's own process that call is the only \<open>signal\<close> or
  \<open>sigaction\<close> call on the signal in the whole run, and the disposition is "ignore" at the
  end of the run, whatever the input was.
\<close>

theorem shell_ignores_job_control_signals:
  "stdin_tty st \<Longrightarrow> sig \<in> {SIGQUIT, SIGTSTP, SIGTTIN, SIGTTOU} \<Longrightarrow>
   (pgid st \<in> set answers \<longrightarrow> main answers ok inputs st \<noteq> None)
   \<and> (\<forall>st'. main answers ok inputs st = Some st' \<longrightarrow>
        Sys_signal sig SIG_IGN \<in> set (new_events st st')
        \<and> Printf msg_prompt []
             \<notin> set (takeWhile (\<lambda>e. e \<noteq> Sys_signal sig SIG_IGN) (new_events st st'))
        \<and> (\<not> in_child st' \<longrightarrow>
             sigdisp st' sig = SIG_IGN
             \<and> filter (changes_disposition sig) (new_events st st') = [Sys_signal sig SIG_IGN]))"
proof (intro conjI allI impI)
  assume "pgid st \<in> set answers"
  then show "main answers ok inputs st \<noteq> None"
    by (simp add: main_returns)
next
  fix st'
  assume tty: "stdin_tty st" and sig: "sig \<in> {SIGQUIT, SIGTSTP, SIGTTIN, SIGTTOU}"
    and m: "main answers ok inputs st = Some st'"
  from main_effect [OF tty m sig] obtain evs1 evs2 where
    n: "new_events st st' = evs1 @ [Sys_signal sig SIG_IGN] @ evs2"
    and b: "\<forall>e \<in> set evs1. \<not> changes_disposition sig e \<and> e \<noteq> Printf msg_prompt []"
    and a: "in_child st' \<or> (sigdisp st' sig = SIG_IGN \<and> (\<forall>e \<in> set evs2. \<not> changes_disposition sig e))"
    by blast
  show "Sys_signal sig SIG_IGN \<in> set (new_events st st')"
    by (simp add: n)
  have "\<forall>e \<in> set evs1. e \<noteq> Sys_signal sig SIG_IGN"
    using b by auto
  then have "takeWhile (\<lambda>e. e \<noteq> Sys_signal sig SIG_IGN) (new_events st st') = evs1"
    by (simp add: n takeWhile_append2)
  with b show "Printf msg_prompt []
      \<notin> set (takeWhile (\<lambda>e. e \<noteq> Sys_signal sig SIG_IGN) (new_events st st'))"
    by auto
  {
    assume "\<not> in_child st'"
    with a have d: "sigdisp st' sig = SIG_IGN" and q: "\<forall>e \<in> set evs2. \<not> changes_disposition sig e"
      by blast+
    from d show "sigdisp st' sig = SIG_IGN" .
    from b q have "filter (changes_disposition sig) evs1 = []"
      "filter (changes_disposition sig) evs2 = []"
      by (auto simp: filter_empty_conv)
    then show "filter (changes_disposition sig) (new_events st st') = [Sys_signal sig SIG_IGN]"
      by (simp add: n)
  }
qed

theorem shell_ignores_job_control_signals_witness:
  "stdin_tty (fresh_proc True 100 100 50) \<and> SIGTSTP \<in> {SIGQUIT, SIGTSTP, SIGTTIN, SIGTTOU}
   \<and> pgid (fresh_proc True 100 100 50) \<in> set [50, 100]
   \<and> main [50, 100] True [(Interrupted, sample_reply), (Line sample_line, sample_reply)] (fresh_proc True 100 100 50) \<noteq> None
   \<and> \<not> in_child (the (main [50, 100] True [(Interrupted, sample_reply), (Line sample_line, sample_reply)] (fresh_proc True 100 100 50)))
   \<and> sigdisp (the (main [50, 100] True [(Interrupted, sample_reply), (Line sample_line, sample_reply)] (fresh_proc True 100 100 50))) SIGTSTP
       = SIG_IGN
   \<and> filter (changes_disposition SIGTSTP) (new_events (fresh_proc True 100 100 50)
        (the (main [50, 100] True [(Interrupted, sample_reply), (Line sample_line, sample_reply)] (fresh_proc True 100 100 50))))
       = [Sys_signal SIGTSTP SIG_IGN]"
proof -
  define st' where "st' = the (main [50, 100] True [(Interrupted, sample_reply), (Line sample_line, sample_reply)] (fresh_proc True 100 100 50))"
  have h: "stdin_tty (fresh_proc True 100 100 50)" "SIGTSTP \<in> {SIGQUIT, SIGTSTP, SIGTTIN, SIGTTOU}"
    "pgid (fresh_proc True 100 100 50) \<in> set [50, 100]"
    by (simp_all add: fresh_proc_def)
  note t = shell_ignores_job_control_signals [OF h(1) h(2), of "[50, 100]" True "[(Interrupted, sample_reply), (Line sample_line, sample_reply)]"]
  from t h(3) have n: "main [50, 100] True [(Interrupted, sample_reply), (Line sample_line, sample_reply)] (fresh_proc True 100 100 50) \<noteq> None"
    by blast
  then have s: "main [50, 100] True [(Interrupted, sample_reply), (Line sample_line, sample_reply)] (fresh_proc True 100 100 50) = Some st'"
    by (simp add: st'_def)
  have p': "should_protect_sigint ''ls'' = 0"
    by (simp add: should_protect_sigint_def protected_def)
  have c: "takeWhile (\<lambda>c. c \<noteq> CHR 0x0A \<and> c \<noteq> CHR 0x00) sample_line = ''ls -la''"
    by (simp add: sample_line_def)
  have a: "parse_command ''ls -la'' = [''ls'', ''-la'']"
    using parse_sample_line by (simp only: c)
  have "in_child (the (main [50, 100] True [(Interrupted, sample_reply), (Line sample_line, sample_reply)] (fresh_proc True 100 100 50))) = False"
    by (simp add: main_def init_shell_def interrupted_read_def sigint_handler_def loop_body_def c a
        handle_builtin_def p' run_defs sample_reply_def)
  then have i: "\<not> in_child st'"
    by (simp add: st'_def)
  from t s i have "sigdisp st' SIGTSTP = SIG_IGN"
    "filter (changes_disposition SIGTSTP) (new_events (fresh_proc True 100 100 50) st')
       = [Sys_signal SIGTSTP SIG_IGN]"
    by blast+
  with h n i show ?thesis
    unfolding st'_def by blast
qed

lemma init_shell_without_terminal:
  "\<not> stdin_tty st \<Longrightarrow> init_shell answers ok st = Some st"
  by (simp add: init_shell_def)

text \<open>
  Claim C8 as it is stated, without the condition on standard input, fails: a shell
  started with standard input not a terminal skips the whole body of \<open>init_shell\<close>, and
  the four dispositions are the default action during the whole run, here a run that meets
  the end of its input at once.
\<close>

theorem ignore_without_terminal_counterexample:
  "\<not> stdin_tty (fresh_proc False 100 100 50)
   \<and> init_shell [] True (fresh_proc False 100 100 50) = Some (fresh_proc False 100 100 50)
   \<and> sigdisp (fresh_proc False 100 100 50) SIGQUIT = SIG_DFL
   \<and> main [] True [] (fresh_proc False 100 100 50) \<noteq> None
   \<and> \<not> in_child (the (main [] True [] (fresh_proc False 100 100 50)))
   \<and> sigdisp (the (main [] True [] (fresh_proc False 100 100 50))) SIGQUIT = SIG_DFL
   \<and> sigdisp (the (main [] True [] (fresh_proc False 100 100 50))) SIGTSTP = SIG_DFL
   \<and> sigdisp (the (main [] True [] (fresh_proc False 100 100 50))) SIGTTIN = SIG_DFL
   \<and> sigdisp (the (main [] True [] (fresh_proc False 100 100 50))) SIGTTOU = SIG_DFL"
  by (simp add: main_def init_shell_def fresh_proc_def emit_def)

end
